theory Spec2Isabelle
  imports Complex_Main
begin

section \<open>Conventions of the embedding\<close>

text \<open>
  The program is a PyTorch notebook: the dataset class \<open>XORDataset\<close>, the network
  \<open>SimpleClassifier\<close>, the training loop \<open>train_model\<close> and the evaluation loop
  \<open>eval_model\<close>. Tensors of floats are lists of reals (a vector) or lists of rows (a
  matrix); float32 rounding is not modelled. Integer tensors are lists of \<open>int\<close>.
  An exception of the source is a value \<open>Inl e\<close> of a sum type. Random draws are
  arguments: a function from the position (row, column) to the value drawn there.
\<close>

datatype error =
  RuntimeError | ValueError | TypeError | ZeroDivisionError | IndexError | FileNotFoundError

type_synonym vec = "real list"
type_synonym mat = "real list list"

section \<open>The dataset: \<open>XORDataset\<close>\<close>

text \<open>
  \<open>torch.randint(low=0, high=2, size=(n, 2), dtype=torch.float32)\<close>: an \<open>n\<close> by 2
  tensor whose entries are 0.0 or 1.0. The draw at row \<open>i\<close>, column \<open>j\<close> is
  \<open>bits i j\<close>. The size is a Python integer and the tensor factory does not take every
  one: a size that is not a 64-bit signed integer raises a TypeError; a negative
  dimension raises a RuntimeError; and so does a tensor that cannot be allocated. A row
  of two float32 takes 8 bytes, so \<open>2 ^ 60\<close> rows or more exceed every storage; below
  that the limit is the memory of the machine, the argument \<open>cap\<close>: the number of rows
  that the machine can allocate for the dataset.
\<close>

definition randint_0_2 :: "nat \<Rightarrow> (nat \<Rightarrow> nat \<Rightarrow> bool) \<Rightarrow> int \<Rightarrow> error + mat" where
  "randint_0_2 cap bits n =
     (if n < - (2 ^ 63) \<or> 2 ^ 63 \<le> n then Inl TypeError
      else if n < 0 then Inl RuntimeError
      else if 2 ^ 60 \<le> n \<or> cap < nat n then Inl RuntimeError
      else Inr (map (\<lambda>i. [of_bool (bits i 0), of_bool (bits i 1)]) [0..<nat n]))"

text \<open>
  \<open>torch.randn(data.shape)\<close> for a tensor of \<open>n\<close> rows of two columns: the standard
  normal draw at row \<open>i\<close>, column \<open>j\<close> is \<open>noise i j\<close>.
\<close>

definition randn :: "(nat \<Rightarrow> nat \<Rightarrow> real) \<Rightarrow> nat \<Rightarrow> mat" where
  "randn noise n = map (\<lambda>i. [noise i 0, noise i 1]) [0..<n]"

text \<open>\<open>(data.sum(dim=1) == 1).to(torch.long)\<close>: one label per row.\<close>

definition row_sum_is_one :: "mat \<Rightarrow> int list" where
  "row_sum_is_one d = map (\<lambda>row. if sum_list row = 1 then 1 else 0) d"

text \<open>\<open>data += self.std * torch.randn(data.shape)\<close>, entry by entry.\<close>

definition add_scaled :: "real \<Rightarrow> mat \<Rightarrow> mat \<Rightarrow> mat" where
  "add_scaled s d r = map2 (map2 (\<lambda>x e. x + s * e)) d r"

record XORDataset =
  size_ds :: int
  std :: real
  data :: mat
  label :: "int list"

text \<open>
  \<open>generate_continuous_xor\<close> reads \<open>self.size\<close> and \<open>self.std\<close> and stores
  \<open>self.data\<close> and \<open>self.label\<close>. The label is computed from the tensor of bits before
  the noise is added in place.
\<close>

definition generate_continuous_xor ::
  "nat \<Rightarrow> (nat \<Rightarrow> nat \<Rightarrow> bool) \<Rightarrow> (nat \<Rightarrow> nat \<Rightarrow> real) \<Rightarrow> XORDataset
     \<Rightarrow> error + XORDataset" where
  "generate_continuous_xor cap bits noise self =
     (case randint_0_2 cap bits (size_ds self) of
        Inl e \<Rightarrow> Inl e
      | Inr d \<Rightarrow>
          let lab = row_sum_is_one d;
              d' = add_scaled (std self) d (randn noise (length d))
          in Inr (self\<lparr>data := d', label := lab\<rparr>))"

text \<open>
  \<open>XORDataset.__init__(self, size, std=0.1)\<close>: stores both arguments, with no check of
  either, and generates the samples.
\<close>

definition XORDataset_init ::
  "nat \<Rightarrow> (nat \<Rightarrow> nat \<Rightarrow> bool) \<Rightarrow> (nat \<Rightarrow> nat \<Rightarrow> real) \<Rightarrow> int \<Rightarrow> real
     \<Rightarrow> error + XORDataset" where
  "XORDataset_init cap bits noise sz sd =
     generate_continuous_xor cap bits noise
       \<lparr>size_ds = sz, std = sd, data = [], label = []\<rparr>"

text \<open>\<open>__len__\<close> returns the stored size.\<close>

definition len_ds :: "XORDataset \<Rightarrow> int" where
  "len_ds self = size_ds self"

text \<open>
  \<open>__getitem__(idx)\<close>: tensor indexing along the first dimension; a negative index
  counts from the end, an index out of range raises IndexError.
\<close>

definition getitem :: "XORDataset \<Rightarrow> int \<Rightarrow> error + (vec \<times> int)" where
  "getitem self idx =
     (let n = int (length (data self)); j = (if idx < 0 then n + idx else idx)
      in if 0 \<le> j \<and> j < n \<and> j < int (length (label self))
         then Inr (data self ! nat j, label self ! nat j)
         else Inl IndexError)"

text \<open>
  Concrete random sources, and a machine that can allocate a thousand rows, used to
  evaluate the definitions.
\<close>

definition cap_w :: nat where
  "cap_w = 1000"

definition bits_diag :: "nat \<Rightarrow> nat \<Rightarrow> bool" where
  "bits_diag i j = (i = j)"

definition noise_one :: "nat \<Rightarrow> nat \<Rightarrow> real" where
  "noise_one i j = 1"

definition noise_zero :: "nat \<Rightarrow> nat \<Rightarrow> real" where
  "noise_zero i j = 0"

section \<open>Batches and the data loader\<close>

text \<open>
  A batch as the loops of \<open>train_model\<close> and \<open>eval_model\<close> receive it: the pair
  \<open>(data_inputs, data_labels)\<close>, a matrix with one row per sample and the vector of
  their labels.
\<close>

record batch =
  data_inputs :: mat
  data_labels :: "int list"

text \<open>
  Modelled from the spec: \<open>torch.utils.data.DataLoader\<close> is library code that is not
  under src/; the notebook only constructs it and iterates over it. The spec gives it a
  dataset, a batch size, a shuffle flag and a drop-incomplete flag. An invalid batch
  size is a configuration error at construction.
\<close>

record DataLoader =
  dataset :: XORDataset
  batch_size :: nat
  shuffle :: bool
  drop_last :: bool

definition DataLoader_init :: "XORDataset \<Rightarrow> int \<Rightarrow> bool \<Rightarrow> bool \<Rightarrow> error + DataLoader" where
  "DataLoader_init ds bs sh dl =
     (if bs \<le> 0 then Inl ValueError
      else Inr \<lparr>dataset = ds, batch_size = nat bs, shuffle = sh, drop_last = dl\<rparr>)"

text \<open>
  Modelled from the spec: the traversal order is the natural order \<open>0..size-1\<close> when
  shuffle is false, and otherwise a permutation drawn for this traversal (the argument
  \<open>perm\<close>).
\<close>

definition index_order :: "bool \<Rightarrow> nat list \<Rightarrow> nat \<Rightarrow> nat list" where
  "index_order sh perm n = (if sh then perm else [0..<n])"

text \<open>
  Modelled from the spec: batches are formed by slicing the index order into consecutive
  chunks of the configured batch size.
\<close>

function chunks :: "nat \<Rightarrow> 'a list \<Rightarrow> 'a list list" where
  "chunks b xs = (if b = 0 \<or> xs = [] then [] else take b xs # chunks b (drop b xs))"
  by pat_completeness auto
termination
  by (relation "measure (\<lambda>(b, xs). length xs)") auto

text \<open>
  Modelled from the spec: when drop-incomplete is true, the final short chunk is
  discarded; when false, it is yielded as a shorter batch.
\<close>

definition drop_incomplete :: "nat \<Rightarrow> 'a list list \<Rightarrow> 'a list list" where
  "drop_incomplete b cs = (if cs \<noteq> [] \<and> length (last cs) < b then butlast cs else cs)"

definition batch_indices :: "nat list \<Rightarrow> DataLoader \<Rightarrow> nat list list" where
  "batch_indices perm dl =
     (let cs = chunks (batch_size dl)
                 (index_order (shuffle dl) perm (nat (len_ds (dataset dl))))
      in if drop_last dl then drop_incomplete (batch_size dl) cs else cs)"

text \<open>Running a fallible function over a list stops at the first exception.\<close>

fun mapM :: "('a \<Rightarrow> error + 'b) \<Rightarrow> 'a list \<Rightarrow> error + 'b list" where
  "mapM f [] = Inr []"
| "mapM f (x # xs) =
     (case f x of
        Inl e \<Rightarrow> Inl e
      | Inr y \<Rightarrow> (case mapM f xs of Inl e \<Rightarrow> Inl e | Inr ys \<Rightarrow> Inr (y # ys)))"

text \<open>
  Modelled from the spec: a batch materialises the samples at its indices as two aligned
  sequences, the features and the labels.
\<close>

definition collate :: "(vec \<times> int) list \<Rightarrow> batch" where
  "collate samples = \<lparr>data_inputs = map fst samples, data_labels = map snd samples\<rparr>"

definition fetch :: "XORDataset \<Rightarrow> nat list \<Rightarrow> error + batch" where
  "fetch ds idxs =
     (case mapM (\<lambda>i. getitem ds (int i)) idxs of
        Inl e \<Rightarrow> Inl e
      | Inr samples \<Rightarrow> Inr (collate samples))"

definition iter_DataLoader :: "nat list \<Rightarrow> DataLoader \<Rightarrow> error + batch list" where
  "iter_DataLoader perm dl = mapM (fetch (dataset dl)) (batch_indices perm dl)"

section \<open>The network: \<open>SimpleClassifier\<close>\<close>

text \<open>
  \<open>nn.Linear(in_features, out_features)\<close> holds a weight of shape [out, in] and a bias
  of shape [out]. Their initial values are random; they are arguments here, by position.
\<close>

record Linear =
  in_features :: nat
  out_features :: nat
  weight :: mat
  bias :: vec

definition Linear_init :: "(nat \<Rightarrow> nat \<Rightarrow> real) \<Rightarrow> (nat \<Rightarrow> real) \<Rightarrow> nat \<Rightarrow> nat \<Rightarrow> Linear" where
  "Linear_init w c n_in n_out =
     \<lparr>in_features = n_in, out_features = n_out,
      weight = map (\<lambda>j. map (w j) [0..<n_in]) [0..<n_out],
      bias = map c [0..<n_out]\<rparr>"

definition dot :: "vec \<Rightarrow> vec \<Rightarrow> real" where
  "dot u v = sum_list (map2 (*) u v)"

text \<open>
  The affine map of a linear layer on a batch: row \<open>r\<close> becomes the row of
  \<open>dot r w + c\<close> over the rows \<open>w\<close> of the weight and the entries \<open>c\<close> of the bias. A
  row whose width is not \<open>in_features\<close> raises a RuntimeError.
\<close>

definition Linear_forward :: "Linear \<Rightarrow> mat \<Rightarrow> error + mat" where
  "Linear_forward l x =
     (if list_all (\<lambda>r. length r = in_features l) x
      then Inr (map (\<lambda>r. map2 (\<lambda>w c. dot r w + c) (weight l) (bias l)) x)
      else Inl RuntimeError)"

text \<open>
  The parameters of the classifier, named as \<open>named_parameters()\<close> prints them:
  \<open>linear1.weight\<close>, \<open>linear1.bias\<close>, \<open>linear2.weight\<close>, \<open>linear2.bias\<close>. The
  gradient of a loss has the same layout.
\<close>

record params =
  linear1 :: Linear
  linear2 :: Linear

text \<open>
  The module object: its parameters, the \<open>.grad\<close> buffers of the parameters (\<open>None\<close>
  until a backward pass has run) and the training-mode flag that \<open>model.train()\<close> and
  \<open>model.eval()\<close> set. The activation \<open>nn.Tanh()\<close> has no state.
\<close>

record SimpleClassifier =
  parameters :: params
  grad :: "params option"
  training :: bool

definition SimpleClassifier_init ::
  "(nat \<Rightarrow> nat \<Rightarrow> real) \<Rightarrow> (nat \<Rightarrow> real) \<Rightarrow> (nat \<Rightarrow> nat \<Rightarrow> real) \<Rightarrow> (nat \<Rightarrow> real)
     \<Rightarrow> nat \<Rightarrow> nat \<Rightarrow> nat \<Rightarrow> SimpleClassifier" where
  "SimpleClassifier_init w1 c1 w2 c2 num_inputs num_hidden num_outputs =
     \<lparr>parameters = \<lparr>linear1 = Linear_init w1 c1 num_inputs num_hidden,
                     linear2 = Linear_init w2 c2 num_hidden num_outputs\<rparr>,
      grad = None, training = True\<rparr>"

text \<open>\<open>SimpleClassifier.forward\<close>, as a function of the parameters and the input.\<close>

definition forward :: "params \<Rightarrow> mat \<Rightarrow> error + mat" where
  "forward p x =
     (case Linear_forward (linear1 p) x of
        Inl e \<Rightarrow> Inl e
      | Inr h \<Rightarrow> Linear_forward (linear2 p) (map (map tanh) h))"

text \<open>
  A tensor of one dimension, or of two with its number of columns and its rows.
  \<open>preds.squeeze(dim=1)\<close> removes the second dimension of a [B, k] tensor when
  \<open>k = 1\<close> and leaves the tensor as it is otherwise.
\<close>

datatype 'a tensor12 = Vec "'a list" | Mat nat "'a list list"

definition squeeze_dim1 :: "nat \<Rightarrow> 'a list list \<Rightarrow> 'a tensor12" where
  "squeeze_dim1 k x = (if k = 1 then Vec (map hd x) else Mat k x)"

text \<open>\<open>preds = model(data_inputs); preds = preds.squeeze(dim=1)\<close>.\<close>

definition predict :: "params \<Rightarrow> mat \<Rightarrow> error + real tensor12" where
  "predict p x =
     (case forward p x of
        Inl e \<Rightarrow> Inl e
      | Inr out \<Rightarrow> Inr (squeeze_dim1 (out_features (linear2 p)) out))"

section \<open>Loss, gradients and the optimizer\<close>

text \<open>
  A float result: a finite number, or one of the two non-finite values that a mean over
  no elements and a tensor division by zero produce.
\<close>

datatype pyfloat = Finite real | NaN | PosInf

definition sigmoid :: "real \<Rightarrow> real" where
  "sigmoid z = 1 / (1 + exp (- z))"

text \<open>
  The binary cross entropy of one prediction \<open>x\<close> in the open unit interval and its
  label \<open>y\<close>, as the notebook writes it: \<open>- [y log x + (1 - y) log (1 - x)]\<close>.
\<close>

definition bce :: "real \<Rightarrow> real \<Rightarrow> real" where
  "bce x y = - (y * ln x + (1 - y) * ln (1 - x))"

definition mean :: "real list \<Rightarrow> pyfloat" where
  "mean xs = (if xs = [] then NaN else Finite (sum_list xs / real (length xs)))"

text \<open>
  Modelled from the spec: \<open>nn.BCEWithLogitsLoss()\<close> is library code that is not under
  src/. The notebook describes it as a sigmoid layer and the binary cross entropy in a
  single class; the spec has it averaged over the batch. An input and a target of
  different sizes raise a ValueError.
\<close>

definition BCEWithLogitsLoss :: "real tensor12 \<Rightarrow> vec \<Rightarrow> error + pyfloat" where
  "BCEWithLogitsLoss input target =
     (case input of
        Vec zs \<Rightarrow>
          if length zs = length target
          then Inr (mean (map2 (\<lambda>z y. bce (sigmoid z) y) zs target))
          else Inl ValueError
      | Mat k rows \<Rightarrow> Inl ValueError)"

text \<open>
  The per-sample quantity in the words of the spec:
  \<open>max(z,0) - z*y + log(1+exp(-|z|))\<close>.
\<close>

definition stable_bce :: "real \<Rightarrow> real \<Rightarrow> real" where
  "stable_bce z y = max z 0 - z * y + ln (1 + exp (- \<bar>z\<bar>))"

text \<open>Entrywise combination of two parameter sets of the same layout.\<close>

definition Linear_map2 :: "(real \<Rightarrow> real \<Rightarrow> real) \<Rightarrow> Linear \<Rightarrow> Linear \<Rightarrow> Linear" where
  "Linear_map2 f p g =
     p\<lparr>weight := map2 (map2 f) (weight p) (weight g), bias := map2 f (bias p) (bias g)\<rparr>"

definition params_map2 :: "(real \<Rightarrow> real \<Rightarrow> real) \<Rightarrow> params \<Rightarrow> params \<Rightarrow> params" where
  "params_map2 f p g =
     \<lparr>linear1 = Linear_map2 f (linear1 p) (linear1 g),
      linear2 = Linear_map2 f (linear2 p) (linear2 g)\<rparr>"

definition params_add :: "params \<Rightarrow> params \<Rightarrow> params" where
  "params_add = params_map2 (+)"

text \<open>A tensor set of the same layout with every entry 0.\<close>

definition Linear_zeros :: "Linear \<Rightarrow> Linear" where
  "Linear_zeros g = g\<lparr>weight := map (map (\<lambda>a. 0)) (weight g), bias := map (\<lambda>a. 0) (bias g)\<rparr>"

definition zeros_like :: "params \<Rightarrow> params" where
  "zeros_like g = \<lparr>linear1 = Linear_zeros (linear1 g), linear2 = Linear_zeros (linear2 g)\<rparr>"

definition same_shape_Linear :: "Linear \<Rightarrow> Linear \<Rightarrow> bool" where
  "same_shape_Linear p g \<longleftrightarrow>
     in_features p = in_features g \<and> out_features p = out_features g
     \<and> map length (weight p) = map length (weight g) \<and> length (bias p) = length (bias g)"

definition same_shape :: "params \<Rightarrow> params \<Rightarrow> bool" where
  "same_shape p g \<longleftrightarrow>
     same_shape_Linear (linear1 p) (linear1 g) \<and> same_shape_Linear (linear2 p) (linear2 g)"

text \<open>
  The loss of a batch as a function of the parameters: the computation that the forward
  pass and the loss module record, and that \<open>loss.backward()\<close> differentiates.
\<close>

type_synonym loss_module = "real tensor12 \<Rightarrow> vec \<Rightarrow> error + pyfloat"

definition loss_graph :: "loss_module \<Rightarrow> batch \<Rightarrow> params \<Rightarrow> error + pyfloat" where
  "loss_graph lm b p =
     (case predict p (data_inputs b) of
        Inl e \<Rightarrow> Inl e
      | Inr preds \<Rightarrow> lm preds (map real_of_int (data_labels b)))"

text \<open>
  Reverse-mode differentiation is the library's: \<open>ag f p\<close> is the gradient that it
  computes for the recorded computation \<open>f\<close> at the parameters \<open>p\<close>, one entry per
  parameter entry.
\<close>

type_synonym autograd = "(params \<Rightarrow> error + pyfloat) \<Rightarrow> params \<Rightarrow> params"

text \<open>
  The loss tensor of the training loop: its value, the computation that produced it from
  the parameters (recorded by the forward pass and the loss module), and the parameters
  at which it was recorded.
\<close>

record loss_tensor =
  item :: pyfloat
  graph :: "params \<Rightarrow> error + pyfloat"
  recorded_at :: params

text \<open>
  Modelled from the spec: \<open>loss.backward()\<close> is the library's, not under src/.
  Accumulation is its default: the new gradient is added to the gradient already stored,
  and stored as it is where none is.
\<close>

definition backward :: "autograd \<Rightarrow> loss_tensor \<Rightarrow> SimpleClassifier \<Rightarrow> SimpleClassifier" where
  "backward ag loss model =
     (let g = ag (graph loss) (recorded_at loss)
      in model\<lparr>grad := Some (case grad model of None \<Rightarrow> g | Some g0 \<Rightarrow> params_add g0 g)\<rparr>)"

text \<open>
  The optimizer is an argument of \<open>train_model\<close>; the loop calls its \<open>zero_grad()\<close>
  and its \<open>step()\<close>, both of which act on the module it was given.
\<close>

record optimizer =
  zero_grad :: "SimpleClassifier \<Rightarrow> SimpleClassifier"
  step :: "SimpleClassifier \<Rightarrow> SimpleClassifier"

text \<open>
  Modelled from the spec: \<open>torch.optim.SGD(model.parameters(), lr)\<close> is library code
  that is not under src/. \<open>zero_grad\<close> resets every accumulated gradient to zero;
  \<open>step\<close> is \<open>parameter -= learning_rate * gradient\<close> for every parameter tensor that
  has a gradient.
\<close>

definition SGD_zero_grad :: "SimpleClassifier \<Rightarrow> SimpleClassifier" where
  "SGD_zero_grad model = model\<lparr>grad := map_option zeros_like (grad model)\<rparr>"

definition SGD_step :: "real \<Rightarrow> SimpleClassifier \<Rightarrow> SimpleClassifier" where
  "SGD_step lr model =
     (case grad model of
        None \<Rightarrow> model
      | Some g \<Rightarrow>
          model\<lparr>parameters := params_map2 (\<lambda>p d. p - lr * d) (parameters model) g\<rparr>)"

definition SGD :: "real \<Rightarrow> optimizer" where
  "SGD lr = \<lparr>zero_grad = SGD_zero_grad, step = SGD_step lr\<rparr>"

section \<open>The training loop: \<open>train_model\<close>\<close>

text \<open>
  The body of the inner loop for one batch: steps 2 to 5 of the source. An exception of
  the forward pass or of the loss module leaves the function; nothing has been updated
  at that point of the step.
\<close>

definition train_step ::
  "autograd \<Rightarrow> optimizer \<Rightarrow> loss_module \<Rightarrow> SimpleClassifier \<Rightarrow> batch \<Rightarrow> error + SimpleClassifier" where
  "train_step ag opt lm model b =
     (case predict (parameters model) (data_inputs b) of
        Inl e \<Rightarrow> Inl e
      | Inr preds \<Rightarrow>
          (case lm preds (map real_of_int (data_labels b)) of
             Inl e \<Rightarrow> Inl e
           | Inr v \<Rightarrow>
               let loss = \<lparr>item = v, graph = loss_graph lm b,
                           recorded_at = parameters model\<rparr>;
                   model1 = zero_grad opt model;
                   model2 = backward ag loss model1;
                   model3 = step opt model2
               in Inr model3))"

text \<open>\<open>for data_inputs, data_labels in data_loader\<close>: the batches in the order yielded.\<close>

fun train_batches ::
  "autograd \<Rightarrow> optimizer \<Rightarrow> loss_module \<Rightarrow> SimpleClassifier \<Rightarrow> batch list \<Rightarrow> error + SimpleClassifier" where
  "train_batches ag opt lm model [] = Inr model"
| "train_batches ag opt lm model (b # bs) =
     (case train_step ag opt lm model b of
        Inl e \<Rightarrow> Inl e
      | Inr model' \<Rightarrow> train_batches ag opt lm model' bs)"

text \<open>
  \<open>for epoch in range(num_epochs)\<close>: each epoch traverses the loader again;
  \<open>data_loader epoch\<close> is the list of batches that the traversal of that epoch yields.
\<close>

fun train_epochs ::
  "autograd \<Rightarrow> optimizer \<Rightarrow> loss_module \<Rightarrow> (nat \<Rightarrow> batch list) \<Rightarrow> nat list \<Rightarrow> SimpleClassifier
     \<Rightarrow> error + SimpleClassifier" where
  "train_epochs ag opt lm data_loader [] model = Inr model"
| "train_epochs ag opt lm data_loader (epoch # es) model =
     (case train_batches ag opt lm model (data_loader epoch) of
        Inl e \<Rightarrow> Inl e
      | Inr model' \<Rightarrow> train_epochs ag opt lm data_loader es model')"

definition train_model ::
  "autograd \<Rightarrow> SimpleClassifier \<Rightarrow> optimizer \<Rightarrow> (nat \<Rightarrow> batch list) \<Rightarrow> loss_module \<Rightarrow> int
     \<Rightarrow> error + SimpleClassifier" where
  "train_model ag model opt data_loader lm num_epochs =
     train_epochs ag opt lm data_loader [0..<nat num_epochs] (model\<lparr>training := True\<rparr>)"

section \<open>The evaluation loop: \<open>eval_model\<close>\<close>

text \<open>\<open>(preds >= 0.5).long()\<close> for one entry.\<close>

definition ge_half :: "real \<Rightarrow> int" where
  "ge_half x = (if 1 / 2 \<le> x then 1 else 0)"

text \<open>
  \<open>(pred_labels == data_labels).sum()\<close>. Two sizes can be compared when they are equal
  or one of them is 1, in which case the single entry is compared with every entry of
  the other tensor; any other pair of sizes raises a RuntimeError. A tensor of two
  dimensions compares each of its rows with the labels.
\<close>

definition broadcastable :: "nat \<Rightarrow> nat \<Rightarrow> bool" where
  "broadcastable m n \<longleftrightarrow> m = n \<or> m = 1 \<or> n = 1"

definition eq_count :: "int list \<Rightarrow> int list \<Rightarrow> nat" where
  "eq_count ps ys =
     (if length ps = length ys then length (filter (\<lambda>(a, c). a = c) (zip ps ys))
      else if length ys = 1 then length (filter (\<lambda>a. a = hd ys) ps)
      else length (filter (\<lambda>c. hd ps = c) ys))"

definition eq_sum :: "int tensor12 \<Rightarrow> int list \<Rightarrow> error + nat" where
  "eq_sum p ys =
     (case p of
        Vec ps \<Rightarrow>
          if broadcastable (length ps) (length ys) then Inr (eq_count ps ys)
          else Inl RuntimeError
      | Mat k rows \<Rightarrow>
          if broadcastable k (length ys) then Inr (sum_list (map (\<lambda>r. eq_count r ys) rows))
          else Inl RuntimeError)"

text \<open>
  The body of the loop for one batch: what it adds to \<open>true_preds\<close> and to
  \<open>num_preds\<close>.
\<close>

definition eval_batch :: "params \<Rightarrow> batch \<Rightarrow> error + (nat \<times> nat)" where
  "eval_batch p b =
     (case predict p (data_inputs b) of
        Inl e \<Rightarrow> Inl e
      | Inr preds \<Rightarrow>
          let probs = map_tensor12 sigmoid preds;
              pred_labels = map_tensor12 ge_half probs
          in (case eq_sum pred_labels (data_labels b) of
                Inl e \<Rightarrow> Inl e
              | Inr c \<Rightarrow> Inr (c, length (data_labels b))))"

text \<open>
  \<open>true_preds\<close> starts as the Python float \<open>0.\<close> and is a tensor from the first
  \<open>+=\<close> of a tensor on; \<open>num_preds\<close> stays a Python float.
\<close>

datatype pynum = PyFloat real | Tensor real

fun num_of :: "pynum \<Rightarrow> real" where
  "num_of (PyFloat x) = x"
| "num_of (Tensor x) = x"

fun eval_loop :: "params \<Rightarrow> batch list \<Rightarrow> pynum \<times> real \<Rightarrow> error + (pynum \<times> real)" where
  "eval_loop p [] acc = Inr acc"
| "eval_loop p (b # bs) (true_preds, num_preds) =
     (case eval_batch p b of
        Inl e \<Rightarrow> Inl e
      | Inr (c, n) \<Rightarrow> eval_loop p bs (Tensor (num_of true_preds + real c), num_preds + real n))"

text \<open>
  \<open>acc = true_preds / num_preds\<close>: the division of two Python floats raises
  ZeroDivisionError on a zero divisor; the division of a tensor does not raise.
\<close>

definition true_divide :: "pynum \<Rightarrow> real \<Rightarrow> error + pyfloat" where
  "true_divide t n =
     (case t of
        PyFloat x \<Rightarrow> if n = 0 then Inl ZeroDivisionError else Inr (Finite (x / n))
      | Tensor x \<Rightarrow>
          if n = 0 then Inr (if x = 0 then NaN else PosInf) else Inr (Finite (x / n)))"

text \<open>
  \<open>eval_model(model, data_loader)\<close>. The source prints \<open>100.0 * acc\<close> with two
  decimals and has no return statement; the result here is the module after the call
  and the value \<open>acc\<close> that is printed, or the exception raised. \<open>torch.no_grad()\<close>
  keeps the forward passes from recording a computation.
\<close>

definition eval_model :: "SimpleClassifier \<Rightarrow> batch list \<Rightarrow> SimpleClassifier \<times> (error + pyfloat)" where
  "eval_model model data_loader =
     (let model' = model\<lparr>training := False\<rparr>
      in (model',
          case eval_loop (parameters model') data_loader (PyFloat 0, 0) of
            Inl e \<Rightarrow> Inl e
          | Inr (true_preds, num_preds) \<Rightarrow> true_divide true_preds num_preds))"

text \<open>
  The accuracy in the words of the spec, sample by sample: the logit of one sample, its
  hard label by the sigmoid and the threshold 0.5, and the share of the samples whose
  hard label is their true label.
\<close>

definition logit :: "params \<Rightarrow> vec \<Rightarrow> real" where
  "logit p x =
     dot (map tanh (map2 (\<lambda>w c. dot x w + c) (weight (linear1 p)) (bias (linear1 p))))
         (hd (weight (linear2 p)))
     + hd (bias (linear2 p))"




section \<open>Saving and loading the parameters\<close>

text \<open>
  Modelled from the spec: \<open>model.state_dict()\<close> is the library's, not under src/. It is
  a named mapping from the parameter-tensor names to their contents and shapes, in the
  order the notebook prints: \<open>linear1.weight\<close>, \<open>linear1.bias\<close>, \<open>linear2.weight\<close>,
  \<open>linear2.bias\<close>. A weight is stored with its number of columns and its rows.
\<close>

type_synonym state_dict = "(string \<times> real tensor12) list"

definition state_dict_of :: "SimpleClassifier \<Rightarrow> state_dict" where
  "state_dict_of model =
     (let p = parameters model
      in [(''linear1.weight'', Mat (in_features (linear1 p)) (weight (linear1 p))),
          (''linear1.bias'', Vec (bias (linear1 p))),
          (''linear2.weight'', Mat (in_features (linear2 p)) (weight (linear2 p))),
          (''linear2.bias'', Vec (bias (linear2 p)))])"

text \<open>
  Modelled from the spec: \<open>torch.save\<close> and \<open>torch.load\<close> are the library's. The files
  are a map from file names to the saved objects; loading a name that was never saved
  raises FileNotFoundError.
\<close>

type_synonym files = "string \<rightharpoonup> state_dict"

definition torch_save :: "state_dict \<Rightarrow> string \<Rightarrow> files \<Rightarrow> files" where
  "torch_save obj name fs = fs(name \<mapsto> obj)"

definition torch_load :: "string \<Rightarrow> files \<Rightarrow> error + state_dict" where
  "torch_load name fs = (case fs name of None \<Rightarrow> Inl FileNotFoundError | Some obj \<Rightarrow> Inr obj)"

text \<open>
  Modelled from the spec: \<open>load_state_dict\<close> is the library's, not under src/. It
  overwrites the parameters of the module with the tensors stored under their names. A
  missing name, a name the module does not have, or a tensor whose shape is not the shape
  of the parameter it replaces raises a RuntimeError.
\<close>

definition weight_fits :: "Linear \<Rightarrow> real tensor12 \<Rightarrow> bool" where
  "weight_fits l t =
     (case t of
        Vec v \<Rightarrow> False
      | Mat k rows \<Rightarrow>
          k = in_features l \<and> length rows = out_features l
          \<and> list_all (\<lambda>r. length r = in_features l) rows)"

definition bias_fits :: "Linear \<Rightarrow> real tensor12 \<Rightarrow> bool" where
  "bias_fits l t = (case t of Vec v \<Rightarrow> length v = out_features l | Mat k rows \<Rightarrow> False)"

fun rows_of :: "real tensor12 \<Rightarrow> mat" where
  "rows_of (Mat k rows) = rows"
| "rows_of (Vec v) = []"

fun entries_of :: "real tensor12 \<Rightarrow> vec" where
  "entries_of (Vec v) = v"
| "entries_of (Mat k rows) = []"

definition parameter_names :: "string list" where
  "parameter_names = [''linear1.weight'', ''linear1.bias'', ''linear2.weight'', ''linear2.bias'']"

definition load_state_dict :: "SimpleClassifier \<Rightarrow> state_dict \<Rightarrow> error + SimpleClassifier" where
  "load_state_dict model sd =
     (let p = parameters model in
      case (map_of sd ''linear1.weight'', map_of sd ''linear1.bias'',
            map_of sd ''linear2.weight'', map_of sd ''linear2.bias'') of
        (Some w1, Some c1, Some w2, Some c2) \<Rightarrow>
          if list_all (\<lambda>(name, t). name \<in> set parameter_names) sd
             \<and> weight_fits (linear1 p) w1 \<and> bias_fits (linear1 p) c1
             \<and> weight_fits (linear2 p) w2 \<and> bias_fits (linear2 p) c2
          then Inr (model\<lparr>parameters :=
                 \<lparr>linear1 = (linear1 p)\<lparr>weight := rows_of w1, bias := entries_of c1\<rparr>,
                  linear2 = (linear2 p)\<lparr>weight := rows_of w2, bias := entries_of c2\<rparr>\<rparr>\<rparr>)
          else Inl RuntimeError
      | _ \<Rightarrow> Inl RuntimeError)"

text \<open>
  A module whose tensors have the shapes its layers declare, with the hidden width of
  the first layer feeding the second: what \<open>SimpleClassifier(num_inputs, num_hidden,
  num_outputs)\<close> constructs and every update of the parameters keeps.
\<close>

definition wf_Linear :: "Linear \<Rightarrow> bool" where
  "wf_Linear l \<longleftrightarrow>
     length (weight l) = out_features l \<and> length (bias l) = out_features l
     \<and> list_all (\<lambda>r. length r = in_features l) (weight l)"

definition wf_params :: "params \<Rightarrow> bool" where
  "wf_params p \<longleftrightarrow>
     wf_Linear (linear1 p) \<and> wf_Linear (linear2 p)
     \<and> in_features (linear2 p) = out_features (linear1 p)"

text \<open>
  A batch as the loader collates it for a module: every row of features has the input
  width of the first layer, and there is one label per row.
\<close>

definition batch_ok :: "params \<Rightarrow> batch \<Rightarrow> bool" where
  "batch_ok p b \<longleftrightarrow>
     list_all (\<lambda>r. length r = in_features (linear1 p)) (data_inputs b)
     \<and> length (data_labels b) = length (data_inputs b)"

section \<open>Concrete inputs\<close>

text \<open>
  Small concrete values, used to evaluate the definitions: initial values that are all
  zero, a classifier with two inputs, one hidden unit and one output, a batch of three
  samples and a batch of one, a loss tensor of constant value, and a gradient function
  that fills every entry with the value of the recorded computation.
\<close>

definition w_zero :: "nat \<Rightarrow> nat \<Rightarrow> real" where
  "w_zero j i = 0"

definition c_zero :: "nat \<Rightarrow> real" where
  "c_zero j = 0"

definition model_w :: SimpleClassifier where
  "model_w =
     \<lparr>parameters =
        \<lparr>linear1 = \<lparr>in_features = 2, out_features = 1, weight = [[1, - 1]], bias = [0]\<rparr>,
         linear2 = \<lparr>in_features = 1, out_features = 1, weight = [[1]], bias = [0]\<rparr>\<rparr>,
      grad = None, training = True\<rparr>"

definition batch_w :: batch where
  "batch_w = \<lparr>data_inputs = [[1, 0], [0, 1], [1, 1]], data_labels = [1, 1, 0]\<rparr>"


definition graph_const :: "real \<Rightarrow> params \<Rightarrow> error + pyfloat" where
  "graph_const c p = Inr (Finite c)"

definition loss_const :: "real \<Rightarrow> loss_tensor" where
  "loss_const c =
     \<lparr>item = Finite c, graph = graph_const c, recorded_at = parameters model_w\<rparr>"

definition ag_fill :: autograd where
  "ag_fill f p =
     params_map2 (\<lambda>a b. a + (case f p of Inr (Finite x) \<Rightarrow> x | _ \<Rightarrow> 0)) (zeros_like p) p"

definition loader_w :: "nat \<Rightarrow> batch list" where
  "loader_w epoch = [batch_w]"

section \<open>Properties of the dataset\<close>

lemma randint_0_2_Inr:
  "(randint_0_2 cap bits n = Inr d) =
     (0 \<le> n \<and> n < 2 ^ 60 \<and> nat n \<le> cap
      \<and> d = map (\<lambda>i. [of_bool (bits i 0), of_bool (bits i 1)]) [0..<nat n])"
  by (auto simp: randint_0_2_def)

lemma randint_0_2_negative:
  "- (2 ^ 63) \<le> n \<Longrightarrow> n < 0 \<Longrightarrow> randint_0_2 cap bits n = Inl RuntimeError"
  by (simp add: randint_0_2_def)

lemma randint_0_2_fails_below_zero:
  "n < 0 \<Longrightarrow> \<exists>e. randint_0_2 cap bits n = Inl e"
  by (simp add: randint_0_2_def)

lemma of_bool_sum_is_one:
  "((of_bool a :: real) + of_bool b = 1) = (a \<noteq> b)"
  by (cases a; cases b) simp_all

lemma add_scaled_rows:
  "add_scaled sd (map (\<lambda>i. [of_bool (bits i 0), of_bool (bits i 1)]) [0..<n])
     (randn noise n) =
   map (\<lambda>i. [of_bool (bits i 0) + sd * noise i 0, of_bool (bits i 1) + sd * noise i 1])
     [0..<n]"
  unfolding add_scaled_def randn_def by (induction n) simp_all

lemma init_Inr:
  "(XORDataset_init cap bits noise sz sd = Inr ds) =
     (0 \<le> sz \<and> sz < 2 ^ 60 \<and> nat sz \<le> cap
      \<and> ds = \<lparr>size_ds = sz, std = sd,
               data = map (\<lambda>i. [of_bool (bits i 0) + sd * noise i 0,
                                of_bool (bits i 1) + sd * noise i 1]) [0..<nat sz],
               label = map (\<lambda>i. if bits i 0 \<noteq> bits i 1 then 1 else 0) [0..<nat sz]\<rparr>)"
proof (cases "randint_0_2 cap bits sz")
  case (Inl e)
  have "\<not> (0 \<le> sz \<and> sz < 2 ^ 60 \<and> nat sz \<le> cap)"
    using Inl randint_0_2_Inr [of cap bits sz] by auto
  moreover have "XORDataset_init cap bits noise sz sd \<noteq> Inr ds"
    by (simp add: XORDataset_init_def generate_continuous_xor_def Inl)
  ultimately show ?thesis
    by blast
next
  case (Inr d)
  then have r: "0 \<le> sz \<and> sz < 2 ^ 60 \<and> nat sz \<le> cap"
    and d: "d = map (\<lambda>i. [of_bool (bits i 0), of_bool (bits i 1)]) [0..<nat sz]"
    by (simp_all add: randint_0_2_Inr)
  have "row_sum_is_one d = map (\<lambda>i. if bits i 0 \<noteq> bits i 1 then 1 else 0) [0..<nat sz]"
    by (simp add: d row_sum_is_one_def of_bool_sum_is_one)
  moreover have "add_scaled sd d (randn noise (length d)) =
      map (\<lambda>i. [of_bool (bits i 0) + sd * noise i 0, of_bool (bits i 1) + sd * noise i 1])
        [0..<nat sz]"
    using add_scaled_rows [of sd bits "nat sz" noise] by (simp add: d)
  ultimately show ?thesis
    using r by (auto simp: XORDataset_init_def generate_continuous_xor_def Inr Let_def)
qed

lemma init_label:
  assumes "XORDataset_init cap bits noise sz sd = Inr ds"
  shows "label ds = map (\<lambda>i. if bits i 0 \<noteq> bits i 1 then 1 else 0) [0..<nat sz]"
  using assms by (simp add: init_Inr)

lemma init_data:
  assumes "XORDataset_init cap bits noise sz sd = Inr ds"
  shows "data ds =
     map (\<lambda>i. [of_bool (bits i 0) + sd * noise i 0, of_bool (bits i 1) + sd * noise i 1])
       [0..<nat sz]"
  using assms by (simp add: init_Inr)

lemma init_succeeds:
  assumes "0 \<le> sz" "sz < 2 ^ 60" "nat sz \<le> cap"
  shows "\<exists>ds. XORDataset_init cap bits noise sz sd = Inr ds"
  using assms by (simp add: init_Inr)

lemma init_fails_below_zero:
  assumes "sz < 0"
  shows "\<exists>e. XORDataset_init cap bits noise sz sd = Inl e"
proof -
  obtain e where "randint_0_2 cap bits sz = Inl e"
    using randint_0_2_fails_below_zero [OF assms] by blast
  then show ?thesis
    by (simp add: XORDataset_init_def generate_continuous_xor_def)
qed

text \<open>
  C1. Every stored label is the XOR of the two bits drawn for its sample, before the
  noise: the label at position \<open>i\<close> is 1 exactly when the sum of the two clean bits is 1,
  that is when the bits differ, and 0 exactly when they are equal. The labels do not
  depend on the noise: the same bits with any other noise draws and any other standard
  deviation give the same labels.
\<close>

theorem C1_label_is_xor_of_clean_bits:
  assumes "XORDataset_init cap bits noise sz sd = Inr ds"
    and "i < nat sz"
  shows "(label ds ! i = 1 \<longleftrightarrow> (of_bool (bits i 0) :: real) + of_bool (bits i 1) = 1)
       \<and> (label ds ! i = 1 \<longleftrightarrow> bits i 0 \<noteq> bits i 1)
       \<and> (label ds ! i = 0 \<longleftrightarrow> bits i 0 = bits i 1)
       \<and> length (label ds) = nat sz
       \<and> (\<forall>cap' noise' sd' ds'. XORDataset_init cap' bits noise' sz sd' = Inr ds'
            \<longrightarrow> label ds' = label ds)"
proof -
  note l = init_label [OF assms(1)]
  have "label ds ! i = (if bits i 0 \<noteq> bits i 1 then 1 else 0)"
    using assms(2) by (simp add: l)
  moreover have "length (label ds) = nat sz"
    by (simp add: l)
  moreover have "label ds' = label ds"
    if "XORDataset_init cap' bits noise' sz sd' = Inr ds'" for cap' noise' sd' ds'
    using init_label [OF that] l by simp
  ultimately show ?thesis
    by (auto simp: of_bool_sum_is_one)
qed

text \<open>
  The labels of C1 for two samples whose bits differ, once with noise of standard
  deviation 0.1 and once with no noise and standard deviation 5.
\<close>

theorem C1_witness:
  "XORDataset_init cap_w bits_diag noise_one 2 (1/10) =
     Inr \<lparr>size_ds = 2, std = 1/10, data = [[11/10, 1/10], [1/10, 11/10]], label = [1, 1]\<rparr>
   \<and> XORDataset_init cap_w bits_diag noise_zero 2 5 =
     Inr \<lparr>size_ds = 2, std = 5, data = [[1, 0], [0, 1]], label = [1, 1]\<rparr>
   \<and> [1, 1 :: int] ! 0 = 1 \<and> bits_diag 0 0 \<noteq> bits_diag 0 1"
proof -
  have upt2: "[0..<2] = [0, Suc 0]"
    by (simp add: upt_rec numeral_2_eq_2)
  have a: "XORDataset_init cap_w bits_diag noise_one 2 (1/10) =
     Inr \<lparr>size_ds = 2, std = 1/10, data = [[11/10, 1/10], [1/10, 11/10]], label = [1, 1]\<rparr>"
    by (simp add: init_Inr cap_w_def upt2 bits_diag_def noise_one_def)
  have b: "XORDataset_init cap_w bits_diag noise_zero 2 5 =
     Inr \<lparr>size_ds = 2, std = 5, data = [[1, 0], [0, 1]], label = [1, 1]\<rparr>"
    by (simp add: init_Inr cap_w_def upt2 bits_diag_def noise_zero_def)
  have i: "(0::nat) < nat 2"
    by simp
  from C1_label_is_xor_of_clean_bits [OF a i] b show ?thesis
    using a by (simp add: bits_diag_def)
qed

text \<open>
  C2 as the specification states it: a size of 0 or below, or a negative standard
  deviation, fails at construction. The constructor has no check of its own. A size of
  0 gives an empty dataset and a negative standard deviation gives a dataset whose noise
  is scaled by it; both constructions succeed.
\<close>

theorem C2_counterexample:
  "XORDataset_init cap_w bits_diag noise_one 0 (1/10) =
     Inr \<lparr>size_ds = 0, std = 1/10, data = [], label = []\<rparr>
   \<and> XORDataset_init cap_w bits_diag noise_one 1 (-1) =
     Inr \<lparr>size_ds = 1, std = -1, data = [[0, -1]], label = [1]\<rparr>"
  by (simp add: init_Inr cap_w_def bits_diag_def noise_one_def)

text \<open>
  C2, amended. The constructor has no validation of its own. A negative size fails at
  construction, with the error that the tensor factory raises for it (a RuntimeError
  for a negative dimension). A size of 0 constructs the empty dataset. The standard
  deviation is never checked: whether the construction succeeds does not depend on it
  nor on the noise, and a negative one is stored and used like any other. Every dataset
  that is constructed stores the two arguments and holds exactly \<open>size\<close> rows of two
  features and \<open>size\<close> labels.
\<close>

theorem C2_construction_checks_neither_size_zero_nor_std:
  "(sz < 0 \<longrightarrow> (\<exists>e. XORDataset_init cap bits noise sz sd = Inl e))
   \<and> (- (2 ^ 63) \<le> sz \<and> sz < 0 \<longrightarrow> XORDataset_init cap bits noise sz sd = Inl RuntimeError)
   \<and> XORDataset_init cap bits noise 0 sd = Inr \<lparr>size_ds = 0, std = sd, data = [], label = []\<rparr>
   \<and> ((\<exists>ds. XORDataset_init cap bits noise sz sd = Inr ds)
        \<longleftrightarrow> (\<exists>ds'. XORDataset_init cap bits noise' sz sd' = Inr ds'))
   \<and> (\<forall>ds. XORDataset_init cap bits noise sz sd = Inr ds \<longrightarrow>
         0 \<le> sz \<and> size_ds ds = sz \<and> std ds = sd \<and> len_ds ds = sz
         \<and> length (data ds) = nat sz \<and> length (label ds) = nat sz
         \<and> (\<forall>row \<in> set (data ds). length row = 2))"
proof -
  have neg: "\<exists>e. XORDataset_init cap bits noise sz sd = Inl e" if "sz < 0"
    using that by (rule init_fails_below_zero)
  have neg': "XORDataset_init cap bits noise sz sd = Inl RuntimeError"
    if "- (2 ^ 63) \<le> sz \<and> sz < 0"
    using that
    by (simp add: XORDataset_init_def generate_continuous_xor_def randint_0_2_negative)
  have zero: "XORDataset_init cap bits noise 0 sd =
      Inr \<lparr>size_ds = 0, std = sd, data = [], label = []\<rparr>"
    by (simp add: init_Inr)
  have indep: "(\<exists>ds. XORDataset_init cap bits noise sz sd = Inr ds)
        \<longleftrightarrow> (\<exists>ds'. XORDataset_init cap bits noise' sz sd' = Inr ds')"
    by (simp add: init_Inr)
  have built: "0 \<le> sz \<and> size_ds ds = sz \<and> std ds = sd \<and> len_ds ds = sz
         \<and> length (data ds) = nat sz \<and> length (label ds) = nat sz
         \<and> (\<forall>row \<in> set (data ds). length row = 2)"
    if "XORDataset_init cap bits noise sz sd = Inr ds" for ds
    using that by (auto simp: init_Inr len_ds_def)
  show ?thesis
    using neg neg' zero indep built by blast
qed

text \<open>
  The construction of C2 with the size -3, with the size 0 and the standard deviation
  -1, and with the size 1 and the standard deviations -1 and 0.1.
\<close>

theorem C2_witness:
  "XORDataset_init cap_w bits_diag noise_one (-3) (1/10) = Inl RuntimeError
   \<and> XORDataset_init cap_w bits_diag noise_one 0 (-1) =
       Inr \<lparr>size_ds = 0, std = -1, data = [], label = []\<rparr>
   \<and> (\<exists>ds. XORDataset_init cap_w bits_diag noise_one 1 (-1) = Inr ds
          \<and> size_ds ds = 1 \<and> std ds = -1 \<and> len_ds ds = 1
          \<and> length (data ds) = 1 \<and> length (label ds) = 1)
   \<and> (\<exists>ds'. XORDataset_init cap_w bits_diag noise_zero 1 (1/10) = Inr ds')"
proof -
  note neg = C2_construction_checks_neither_size_zero_nor_std
    [where sz = "-3" and cap = cap_w and bits = bits_diag and noise = noise_one
       and sd = "1/10"]
  note pos = C2_construction_checks_neither_size_zero_nor_std
    [where sz = 1 and cap = cap_w and bits = bits_diag and noise = noise_one
       and sd = "-1" and noise' = noise_zero and sd' = "1/10"]
  note zero = C2_construction_checks_neither_size_zero_nor_std
    [where sz = 0 and cap = cap_w and bits = bits_diag and noise = noise_one
       and sd = "-1"]
  have a: "XORDataset_init cap_w bits_diag noise_one (-3) (1/10) = Inl RuntimeError"
    using neg by simp
  have z: "XORDataset_init cap_w bits_diag noise_one 0 (-1) =
       Inr \<lparr>size_ds = 0, std = -1, data = [], label = []\<rparr>"
    using zero by simp
  obtain ds where ds: "XORDataset_init cap_w bits_diag noise_one 1 (-1) = Inr ds"
    using init_succeeds [of 1 cap_w bits_diag noise_one "-1"] by (auto simp: cap_w_def)
  then have f: "size_ds ds = 1 \<and> std ds = -1 \<and> len_ds ds = 1
          \<and> length (data ds) = 1 \<and> length (label ds) = 1"
    using pos by simp
  have "\<exists>ds'. XORDataset_init cap_w bits_diag noise_zero 1 (1/10) = Inr ds'"
    using pos ds by blast
  with a z ds f show ?thesis
    by blast
qed

section \<open>Properties of the data loader\<close>


declare chunks.simps [simp del]

lemma chunks_stop: "b = 0 \<or> xs = [] \<Longrightarrow> chunks b xs = []"
  by (subst chunks.simps) simp

lemma chunks_go: "0 < b \<Longrightarrow> xs \<noteq> [] \<Longrightarrow> chunks b xs = take b xs # chunks b (drop b xs)"
  by (subst chunks.simps) simp

lemma ceil_div_step:
  fixes n b :: nat
  assumes "0 < n" "0 < b"
  shows "(n + b - 1) div b = Suc ((n - b + b - 1) div b)"
proof -
  have l: "n + b - 1 = (n - 1) + b"
    using assms by simp
  have "(n + b - 1) div b = ((n - 1) + b) div b"
    by (simp only: l)
  also have "\<dots> = Suc ((n - 1) div b)"
    using assms(2) by simp
  finally have lhs: "(n + b - 1) div b = Suc ((n - 1) div b)" .
  show ?thesis
  proof (cases "b \<le> n")
    case True
    then have "n - b + b - 1 = n - 1" by simp
    with lhs show ?thesis by simp
  next
    case False
    then have "n - b + b - 1 = b - 1" "(n - 1) div b = 0"
      using assms by simp_all
    with lhs assms show ?thesis by simp
  qed
qed

lemma length_chunks: "0 < b \<Longrightarrow> length (chunks b xs) = (length xs + b - 1) div b"
proof (induction b xs rule: chunks.induct)
  case (1 b xs)
  show ?case
  proof (cases "xs = []")
    case True
    with 1 show ?thesis by (simp add: chunks_stop)
  next
    case False
    then have pos: "0 < length xs" by simp
    have ih: "length (chunks b (drop b xs)) = (length xs - b + b - 1) div b"
      using 1 False by simp
    show ?thesis
      using ih ceil_div_step [OF pos 1(2)] 1(2) False by (simp add: chunks_go)
  qed
qed

lemma nth_chunks:
  "0 < b \<Longrightarrow> k < length (chunks b xs) \<Longrightarrow> chunks b xs ! k = take b (drop (k * b) xs)"
proof (induction b xs arbitrary: k rule: chunks.induct)
  case (1 b xs)
  show ?case
  proof (cases "xs = []")
    case True
    with 1 show ?thesis by (simp add: chunks_stop)
  next
    case False
    show ?thesis
    proof (cases k)
      case 0
      then show ?thesis using 1(2) False by (simp add: chunks_go)
    next
      case (Suc j)
      then have "j < length (chunks b (drop b xs))"
        using 1(2,3) False by (simp add: chunks_go)
      then have "chunks b (drop b xs) ! j = take b (drop (j * b) (drop b xs))"
        using 1 False by simp
      then show ?thesis using Suc 1(2) False by (simp add: chunks_go add.commute)
    qed
  qed
qed

lemma concat_chunks: "0 < b \<Longrightarrow> concat (chunks b xs) = xs"
proof (induction b xs rule: chunks.induct)
  case (1 b xs)
  then show ?case by (cases "xs = []") (simp_all add: chunks_stop chunks_go)
qed


lemma ceil_div_eq:
  fixes n b :: nat
  assumes "0 < b"
  shows "(n + b - 1) div b = n div b + (if b dvd n then 0 else 1)"
proof -
  define r where "r = n mod b"
  define q where "q = n div b"
  have n: "n = r + q * b" and r: "r < b"
    using assms by (simp_all add: r_def q_def)
  show ?thesis
  proof (cases "r = 0")
    case True
    have "n + b - 1 = (b - 1) + q * b"
      using n True assms by simp
    then have "(n + b - 1) div b = ((b - 1) + q * b) div b"
      by (rule arg_cong)
    also have "\<dots> = q + (b - 1) div b"
      using assms by (intro div_mult_self1) simp
    also have "\<dots> = q"
      using assms by simp
    finally show ?thesis
      using True by (simp add: q_def r_def dvd_eq_mod_eq_0)
  next
    case False
    have "n + b - 1 = (r - 1) + (Suc q) * b"
      using n False by simp
    then have "(n + b - 1) div b = ((r - 1) + (Suc q) * b) div b"
      by (rule arg_cong)
    also have "\<dots> = Suc q + (r - 1) div b"
      using assms by (intro div_mult_self1) simp
    also have "\<dots> = Suc q"
      using r by simp
    finally show ?thesis
      using False by (simp add: q_def r_def dvd_eq_mod_eq_0)
  qed
qed

lemma concat_take_chunks:
  "0 < b \<Longrightarrow> concat (take q (chunks b xs)) = take (q * b) xs"
proof (induction q arbitrary: xs)
  case 0
  then show ?case by simp
next
  case (Suc q)
  show ?case
  proof (cases "xs = []")
    case True
    then show ?thesis by (simp add: chunks_stop)
  next
    case False
    have "concat (take (Suc q) (chunks b xs)) = take b xs @ take (q * b) (drop b xs)"
      using Suc False by (simp add: chunks_go)
    also have "\<dots> = take (b + q * b) xs"
      by (simp add: take_add)
    finally show ?thesis by simp
  qed
qed

lemma length_nth_chunks:
  assumes "0 < b" "k < length (chunks b xs)"
  shows "length (chunks b xs ! k) = min b (length xs - k * b)"
  using assms by (simp add: nth_chunks)

lemma length_chunks_div:
  assumes "0 < b"
  shows "length (chunks b xs) = length xs div b + (if b dvd length xs then 0 else 1)"
  using length_chunks [OF assms, of xs] ceil_div_eq [OF assms, of "length xs"] by simp

lemma drop_incomplete_chunks:
  assumes "0 < b"
  shows "drop_incomplete b (chunks b xs) = take (length xs div b) (chunks b xs)"
proof (cases "xs = []")
  case True
  then show ?thesis by (simp add: drop_incomplete_def chunks_stop)
next
  case False
  let ?cs = "chunks b xs"
  let ?n = "length xs"
  have ne: "?cs \<noteq> []"
    using assms False by (simp add: chunks_go)
  have len: "length ?cs = ?n div b + (if b dvd ?n then 0 else 1)"
    using assms by (rule length_chunks_div)
  have lastlen: "length (last ?cs) = min b (?n - (length ?cs - 1) * b)"
    using ne assms by (simp add: last_conv_nth length_nth_chunks)
  show ?thesis
  proof (cases "b dvd ?n")
    case True
    then obtain q where q: "?n = q * b" by (metis dvd_div_mult_self)
    with False assms have qpos: "0 < q" by (cases q) auto
    have "length ?cs = q" using len True q assms by simp
    moreover have "q * b - (q - 1) * b = b"
      using qpos by (simp add: diff_mult_distrib)
    ultimately have "length (last ?cs) = b"
      using lastlen q by simp
    then show ?thesis
      using len True by (simp add: drop_incomplete_def)
  next
    case False
    then have l: "length ?cs = Suc (?n div b)" using len by simp
    have "?n - (?n div b) * b = ?n mod b"
      by (simp add: minus_div_mult_eq_mod)
    moreover have "?n mod b < b" using assms by simp
    ultimately have "length (last ?cs) < b"
      using lastlen l by simp
    then show ?thesis
      using ne l by (simp add: drop_incomplete_def butlast_conv_take)
  qed
qed

lemma take_drop_upt: "take b (drop m [0..<n]) = [m..<min n (m + b)]"
proof -
  have "drop m [0..<n] = [m..<n]" by simp
  moreover have "take b [m..<n] = [m..<min n (m + b)]"
  proof (cases "m + b \<le> n")
    case True
    then show ?thesis by (simp add: min_def)
  next
    case False
    then have "length [m..<n] \<le> b" by simp
    then have "take b [m..<n] = [m..<n]" by (rule take_all)
    with False show ?thesis by (simp add: min_def)
  qed
  ultimately show ?thesis by simp
qed


lemma batch_indices_natural:
  assumes "shuffle L = False" "0 < batch_size L"
  shows "batch_indices perm L =
     take (if drop_last L then nat (len_ds (dataset L)) div batch_size L
           else length (chunks (batch_size L) [0..<nat (len_ds (dataset L))]))
       (chunks (batch_size L) [0..<nat (len_ds (dataset L))])"
  using assms by (simp add: batch_indices_def index_order_def Let_def drop_incomplete_chunks)

lemma DataLoader_init_fields:
  assumes "DataLoader_init ds bs sh dlast = Inr L"
  shows "0 < bs \<and> dataset L = ds \<and> batch_size L = nat bs \<and> shuffle L = sh \<and> drop_last L = dlast"
  using assms by (auto simp: DataLoader_init_def split: if_splits)

lemma mapM_all_Inr:
  assumes "\<forall>x \<in> set xs. f x = Inr (g x)"
  shows "mapM f xs = Inr (map g xs)"
  using assms by (induction xs) simp_all

lemma getitem_in_range:
  assumes "i < length (data ds)" "i < length (label ds)"
  shows "getitem ds (int i) = Inr (data ds ! i, label ds ! i)"
  using assms by (simp add: getitem_def Let_def)

lemma fetch_in_range:
  assumes "\<forall>i \<in> set c. i < length (data ds) \<and> i < length (label ds)"
  shows "fetch ds c =
     Inr \<lparr>data_inputs = map (\<lambda>i. data ds ! i) c, data_labels = map (\<lambda>i. label ds ! i) c\<rparr>"
proof -
  have "mapM (\<lambda>i. getitem ds (int i)) c = Inr (map (\<lambda>i. (data ds ! i, label ds ! i)) c)"
    using assms by (intro mapM_all_Inr) (simp add: getitem_in_range)
  then show ?thesis
    by (simp add: fetch_def collate_def comp_def)
qed

lemma init_size:
  assumes "XORDataset_init cap bits noise sz sd = Inr ds"
  shows "0 \<le> sz \<and> len_ds ds = sz"
  using assms by (auto simp: init_Inr len_ds_def)

lemma list3: "length xs = 3 \<Longrightarrow> xs = [xs ! 0, xs ! 1, xs ! 2]"
  by (cases xs; cases "tl xs"; cases "tl (tl xs)") (auto simp: numeral_3_eq_3)

lemma list2: "length xs = 2 \<Longrightarrow> xs = [xs ! 0, xs ! 1]"
  by (cases xs; cases "tl xs") (auto simp: numeral_2_eq_2)

text \<open>
  C3. A loader with shuffle false over a dataset of size \<open>n\<close> with batch size \<open>b\<close>
  yields the indices in natural order in consecutive chunks of size \<open>b\<close>: the batch
  number \<open>k\<close> is the run from \<open>k * b\<close> up to \<open>k * b + b\<close>, cut at \<open>n\<close>. Without
  drop-incomplete the batches cover \<open>0..n-1\<close> exactly once in order, every batch but the
  last has size \<open>b\<close>, and when \<open>n\<close> is not a multiple of \<open>b\<close> the last batch is the
  short one of size \<open>n mod b\<close>. With drop-incomplete the short chunk is discarded: every
  batch has size \<open>b\<close> and the batches cover the first \<open>(n div b) * b\<close> indices. Over a
  dataset that holds its \<open>n\<close> samples, the traversal yields for each chunk the batch of
  the features and labels at its indices. For \<open>n = 10\<close> and \<open>b = 4\<close> the sizes are
  4, 4, 2, and 4, 4 with drop-incomplete.
\<close>

theorem C3_loader_chunks_in_natural_order:
  assumes init: "DataLoader_init ds bs False dlast = Inr L"
    and n: "n = nat (len_ds ds)"
    and b: "b = nat bs"
  shows "0 < b
    \<and> length (batch_indices perm L) = (if dlast then n div b else (n + b - 1) div b)
    \<and> (\<forall>k < length (batch_indices perm L).
          batch_indices perm L ! k = [k * b ..< min n (k * b + b)])
    \<and> concat (batch_indices perm L) = [0 ..< (if dlast then (n div b) * b else n)]
    \<and> (\<forall>c \<in> set (batch_indices perm L). 0 < length c \<and> length c \<le> b)
    \<and> (\<forall>k. Suc k < length (batch_indices perm L) \<longrightarrow> length (batch_indices perm L ! k) = b)
    \<and> (dlast \<longrightarrow> (\<forall>c \<in> set (batch_indices perm L). length c = b))
    \<and> (\<not> dlast \<and> \<not> b dvd n \<longrightarrow> length (last (batch_indices perm L)) = n mod b)
    \<and> (length (data ds) = n \<and> length (label ds) = n \<longrightarrow>
         iter_DataLoader perm L =
           Inr (map (\<lambda>c. \<lparr>data_inputs = map (\<lambda>i. data ds ! i) c,
                           data_labels = map (\<lambda>i. label ds ! i) c\<rparr>)
                  (batch_indices perm L)))"
proof -
  note f = DataLoader_init_fields [OF init]
  have bpos: "0 < b" using f b by simp
  let ?cs = "chunks b [0..<n]"
  let ?B = "batch_indices perm L"
  have lencs: "length ?cs = n div b + (if b dvd n then 0 else 1)"
    using length_chunks_div [OF bpos, of "[0..<n]"] by simp
  have B: "?B = take (if dlast then n div b else length ?cs) ?cs"
    using batch_indices_natural [of L perm] f n b bpos by simp
  have lenB: "length ?B = (if dlast then n div b else (n + b - 1) div b)"
    using B lencs ceil_div_eq [OF bpos, of n] by simp
  have lenB_le: "length ?B \<le> length ?cs"
    using B by simp
  have nthB: "?B ! k = [k * b ..< min n (k * b + b)]" if "k < length ?B" for k
  proof -
    have "k < length ?cs" using that lenB_le by simp
    then have "?cs ! k = take b (drop (k * b) [0..<n])"
      using bpos by (simp add: nth_chunks)
    moreover have "?B ! k = ?cs ! k"
      using that B by simp
    ultimately show ?thesis by (simp only: take_drop_upt)
  qed
  have catB: "concat ?B = [0 ..< (if dlast then (n div b) * b else n)]"
  proof (cases dlast)
    case True
    then have "concat ?B = take ((n div b) * b) [0..<n]"
      using B bpos by (simp add: concat_take_chunks)
    moreover have "(n div b) * b \<le> n" by simp
    ultimately show ?thesis using True by (simp add: take_upt)
  next
    case False
    then show ?thesis using B bpos by (simp add: concat_chunks)
  qed
  have kb: "k * b < n" if "k < length ?B" for k
  proof -
    have "k < n div b + (if b dvd n then 0 else 1)" using that lenB_le lencs by simp
    then show ?thesis
    proof (cases "b dvd n")
      case True
      with \<open>k < n div b + (if b dvd n then 0 else 1)\<close> have "k < n div b" by simp
      then have "Suc k * b \<le> (n div b) * b" by (intro mult_le_mono1) simp
      then have "k * b + b \<le> (n div b) * b" by simp
      moreover have "(n div b) * b \<le> n" by simp
      ultimately show ?thesis using bpos by linarith
    next
      case False
      with \<open>k < n div b + (if b dvd n then 0 else 1)\<close> have "k \<le> n div b" by simp
      then have "k * b \<le> (n div b) * b" by (intro mult_le_mono1)
      moreover have "0 < n mod b"
        using False by (simp add: dvd_eq_mod_eq_0)
      moreover have "(n div b) * b + n mod b = n"
        by (rule div_mult_mod_eq)
      ultimately show ?thesis by linarith
    qed
  qed
  have lenk: "0 < length (?B ! k) \<and> length (?B ! k) \<le> b" if "k < length ?B" for k
  proof -
    have "length (?B ! k) = min n (k * b + b) - k * b"
      using nthB [OF that] by simp
    then show ?thesis
      using kb [OF that] bpos by (simp add: min_def) linarith
  qed
  have sizes: "\<forall>c \<in> set ?B. 0 < length c \<and> length c \<le> b"
    using lenk by (auto simp: in_set_conv_nth)
  have full: "length (?B ! k) = b" if "Suc k < length ?B" for k
  proof -
    have "Suc k * b < n" using kb [OF that] .
    then have "min n (k * b + b) = k * b + b" by (simp add: add.commute)
    moreover have "k < length ?B" using that by simp
    ultimately show ?thesis using nthB [of k] by simp
  qed
  have dropped: "\<forall>c \<in> set ?B. length c = b" if dlast
  proof -
    have "length (?B ! k) = b" if k: "k < length ?B" for k
    proof -
      have "k < n div b" using k lenB \<open>dlast\<close> by simp
      then have "Suc k * b \<le> (n div b) * b" by (intro mult_le_mono1) simp
      then have "k * b + b \<le> (n div b) * b" by simp
      moreover have "(n div b) * b \<le> n" by simp
      ultimately have "k * b + b \<le> n" by linarith
      then have "min n (k * b + b) = k * b + b" by simp
      then show ?thesis using nthB [OF k] by simp
    qed
    then show ?thesis by (auto simp: in_set_conv_nth)
  qed
  have short: "length (last ?B) = n mod b" if "\<not> dlast" "\<not> b dvd n"
  proof -
    have l: "length ?B = Suc (n div b)" using B lencs that by simp
    then have "?B \<noteq> []" by auto
    then have "last ?B = ?B ! (length ?B - 1)"
      by (rule last_conv_nth)
    then have "last ?B = ?B ! (n div b)"
      using l by simp
    also have "\<dots> = [(n div b) * b ..< min n ((n div b) * b + b)]"
      using nthB [of "n div b"] l by simp
    finally have len: "length (last ?B) = min n ((n div b) * b + b) - (n div b) * b" by simp
    have lt: "n mod b < b"
      using bpos by simp
    have e: "(n div b) * b + n mod b = n"
      by (rule div_mult_mod_eq)
    have "min n ((n div b) * b + b) = n"
      using e lt by linarith
    with len have "length (last ?B) = n - (n div b) * b"
      by (simp only:)
    also have "\<dots> = n mod b"
      by (rule minus_div_mult_eq_mod)
    finally show ?thesis .
  qed
  have iter: "iter_DataLoader perm L =
           Inr (map (\<lambda>c. \<lparr>data_inputs = map (\<lambda>i. data ds ! i) c,
                           data_labels = map (\<lambda>i. label ds ! i) c\<rparr>) ?B)"
    if len: "length (data ds) = n \<and> length (label ds) = n"
  proof -
    have "i < n" if "c \<in> set ?B" "i \<in> set c" for c i
    proof -
      have "i \<in> set (concat ?B)" using that by auto
      then have lt: "i < (if dlast then (n div b) * b else n)"
        by (simp only: catB) simp
      have le: "(n div b) * b \<le> n" by simp
      show ?thesis
      proof (cases dlast)
        case True
        with lt have "i < (n div b) * b" by simp
        then show ?thesis using le by (rule less_le_trans)
      next
        case False
        with lt show ?thesis by simp
      qed
    qed
    then have "\<forall>c \<in> set ?B. fetch ds c =
        Inr \<lparr>data_inputs = map (\<lambda>i. data ds ! i) c, data_labels = map (\<lambda>i. label ds ! i) c\<rparr>"
      using len by (intro ballI fetch_in_range) simp
    then have "mapM (fetch ds) ?B =
        Inr (map (\<lambda>c. \<lparr>data_inputs = map (\<lambda>i. data ds ! i) c,
                           data_labels = map (\<lambda>i. label ds ! i) c\<rparr>) ?B)"
      by (rule mapM_all_Inr)
    then show ?thesis
      using f by (simp add: iter_DataLoader_def)
  qed
  show ?thesis
    using bpos lenB nthB catB sizes full dropped short iter by blast
qed




text \<open>
  The loader of C3 on a dataset of size 10 with batch size 4, without and with
  drop-incomplete.
\<close>

theorem C3_witness:
  "\<exists>ds L L' batches. XORDataset_init cap_w bits_diag noise_zero 10 (1/10) = Inr ds
     \<and> DataLoader_init ds 4 False False = Inr L
     \<and> batch_indices [] L = [[0, 1, 2, 3], [4, 5, 6, 7], [8, 9]]
     \<and> map length (batch_indices [] L) = [4, 4, 2]
     \<and> concat (batch_indices [] L) = [0..<10]
     \<and> iter_DataLoader [] L = Inr batches
     \<and> map (\<lambda>b. length (data_labels b)) batches = [4, 4, 2]
     \<and> DataLoader_init ds 4 False True = Inr L'
     \<and> batch_indices [] L' = [[0, 1, 2, 3], [4, 5, 6, 7]]
     \<and> concat (batch_indices [] L') = [0..<8]"
proof -
  obtain ds where ds: "XORDataset_init cap_w bits_diag noise_zero 10 (1/10) = Inr ds"
    using init_succeeds [of 10 cap_w bits_diag noise_zero "1/10"] by (auto simp: cap_w_def)
  have n: "(10::nat) = nat (len_ds ds)"
    using init_size [OF ds] by simp
  have lens: "length (data ds) = 10 \<and> length (label ds) = 10"
    by (simp add: init_data [OF ds] init_label [OF ds])
  have b: "(4::nat) = nat 4"
    by simp
  define L where "L = \<lparr>dataset = ds, batch_size = 4, shuffle = False, drop_last = False\<rparr>"
  define L' where "L' = \<lparr>dataset = ds, batch_size = 4, shuffle = False, drop_last = True\<rparr>"
  have i: "DataLoader_init ds 4 False False = Inr L"
    by (simp add: DataLoader_init_def L_def)
  have i': "DataLoader_init ds 4 False True = Inr L'"
    by (simp add: DataLoader_init_def L'_def)
  note t = C3_loader_chunks_in_natural_order [OF i n b, of "[]"]
  note t' = C3_loader_chunks_in_natural_order [OF i' n b, of "[]"]
  have len: "length (batch_indices [] L) = 3"
    using t by simp
  have nth: "batch_indices [] L ! k = [k * 4 ..< min 10 (k * 4 + 4)]" if "k < 3" for k
    using t that len by simp
  have e0: "[0 * 4 ..< min 10 (0 * 4 + 4)] = [0, 1, 2, 3::nat]" by code_simp
  have e1: "[1 * 4 ..< min 10 (1 * 4 + 4)] = [4, 5, 6, 7::nat]" by code_simp
  have e2: "[2 * 4 ..< min 10 (2 * 4 + 4)] = [8, 9::nat]" by code_simp
  have B: "batch_indices [] L = [[0, 1, 2, 3], [4, 5, 6, 7], [8, 9]]"
    using list3 [OF len] nth [of 0] nth [of 1] nth [of 2] e0 e1 e2 by simp
  have cat: "concat (batch_indices [] L) = [0..<10]"
    using t by simp
  from t lens have "iter_DataLoader [] L =
      Inr (map (\<lambda>c. \<lparr>data_inputs = map (\<lambda>i. data ds ! i) c,
                      data_labels = map (\<lambda>i. label ds ! i) c\<rparr>) (batch_indices [] L))"
    by blast
  then obtain batches where it: "iter_DataLoader [] L = Inr batches"
    and bt: "batches = map (\<lambda>c. \<lparr>data_inputs = map (\<lambda>i. data ds ! i) c,
                      data_labels = map (\<lambda>i. label ds ! i) c\<rparr>) (batch_indices [] L)"
    by blast
  have sizes: "map (\<lambda>b. length (data_labels b)) batches = [4, 4, 2]"
    by (simp add: bt B)
  have len': "length (batch_indices [] L') = 2"
    using t' by simp
  have nth': "batch_indices [] L' ! k = [k * 4 ..< min 10 (k * 4 + 4)]" if "k < 2" for k
    using t' that len' by simp
  have B': "batch_indices [] L' = [[0, 1, 2, 3], [4, 5, 6, 7]]"
    using list2 [OF len'] nth' [of 0] nth' [of 1] e0 e1 by simp
  have cat': "concat (batch_indices [] L') = [0..<8]"
    using t' by simp
  show ?thesis
    using ds i i' B cat it sizes B' cat'
    by (intro exI [of _ ds] exI [of _ L] exI [of _ L'] exI [of _ batches]) simp
qed

section \<open>Properties of gradient accumulation\<close>


lemma add_zero_vec:
  "length xs = length ys \<Longrightarrow> map2 (+) (map (\<lambda>a. 0) xs) ys = (ys :: real list)"
  by (induction xs ys rule: list_induct2) simp_all

lemma add_zero_mat:
  assumes "map length A = map length B"
  shows "map2 (map2 (+)) (map (map (\<lambda>a. 0)) A) B = (B :: real list list)"
proof -
  have "length A = length B"
    using assms by (rule map_eq_imp_length_eq)
  then show ?thesis
    using assms
    by (induction A B rule: list_induct2) (simp_all add: add_zero_vec)
qed

lemma Linear_zero_add:
  assumes "same_shape_Linear l0 l"
  shows "Linear_map2 (+) (Linear_zeros l0) l = l"
  using assms
  by (cases l0; cases l)
     (simp add: Linear_map2_def Linear_zeros_def same_shape_Linear_def add_zero_vec add_zero_mat)

lemma zeros_like_add:
  assumes "same_shape g0 g"
  shows "params_add (zeros_like g0) g = g"
  using assms
  by (cases g)
     (simp add: params_add_def zeros_like_def params_map2_def same_shape_def Linear_zero_add)

lemma same_shape_trans: "same_shape a b \<Longrightarrow> same_shape b c \<Longrightarrow> same_shape a c"
  by (simp add: same_shape_def same_shape_Linear_def)


lemma params_add_tensors:
  "weight (linear1 (params_add a b)) = map2 (map2 (+)) (weight (linear1 a)) (weight (linear1 b))
   \<and> bias (linear1 (params_add a b)) = map2 (+) (bias (linear1 a)) (bias (linear1 b))
   \<and> weight (linear2 (params_add a b)) = map2 (map2 (+)) (weight (linear2 a)) (weight (linear2 b))
   \<and> bias (linear2 (params_add a b)) = map2 (+) (bias (linear2 a)) (bias (linear2 b))"
  by (simp add: params_add_def params_map2_def Linear_map2_def)

lemma backward_parameters: "parameters (backward ag g m) = parameters m"
  by (simp add: backward_def Let_def)

lemma zero_grad_parameters: "parameters (SGD_zero_grad m) = parameters m"
  by (simp add: SGD_zero_grad_def)

lemma backward_after_zero_grad:
  assumes "\<forall>g0. grad m = Some g0 \<longrightarrow> same_shape g0 (ag (graph l) (recorded_at l))"
  shows "grad (backward ag l (SGD_zero_grad m)) = Some (ag (graph l) (recorded_at l))"
proof (cases "grad m")
  case None
  then show ?thesis
    by (simp add: backward_def SGD_zero_grad_def Let_def)
next
  case (Some g0)
  with assms have "params_add (zeros_like g0) (ag (graph l) (recorded_at l)) =
      ag (graph l) (recorded_at l)"
    by (intro zeros_like_add) simp
  with Some show ?thesis
    by (simp add: backward_def SGD_zero_grad_def Let_def)
qed

lemma backward_accumulates:
  assumes "grad m = Some g0"
  shows "grad (backward ag l m) = Some (params_add g0 (ag (graph l) (recorded_at l)))"
  using assms by (simp add: backward_def Let_def)

text \<open>
  C5. Gradient accumulation is additive and resettable. Starting from zeroed gradients,
  let \<open>G1\<close> and \<open>G2\<close> be the gradients of two losses, that is what a single backward
  pass of each stores. Two backward passes in a row on the same parameters without
  zeroing in between store, for every parameter tensor, the entrywise sum of \<open>G1\<close> and
  \<open>G2\<close>; with the gradients zeroed between the passes, the second pass stores \<open>G2\<close>,
  the gradient of a single independent pass. Neither operation changes a parameter. The
  gradients have the layout of the parameters, so \<open>G1\<close>, \<open>G2\<close> and a gradient already
  stored have the same shape.
\<close>

theorem C5_gradients_accumulate_until_reset:
  assumes G1: "G1 = ag (graph l1) (recorded_at l1)"
    and G2: "G2 = ag (graph l2) (recorded_at l2)"
    and m0: "m0 = SGD_zero_grad m"
    and s12: "same_shape G1 G2"
    and s0: "\<forall>g0. grad m = Some g0 \<longrightarrow> same_shape g0 G1"
  shows "grad (backward ag l1 m0) = Some G1
    \<and> grad (backward ag l2 m0) = Some G2
    \<and> grad (backward ag l2 (backward ag l1 m0)) = Some (params_add G1 G2)
    \<and> grad (backward ag l2 (SGD_zero_grad (backward ag l1 m0))) = Some G2
    \<and> parameters (backward ag l2 (backward ag l1 m0)) = parameters m
    \<and> parameters (backward ag l2 (SGD_zero_grad (backward ag l1 m0))) = parameters m
    \<and> weight (linear1 (params_add G1 G2)) =
        map2 (map2 (+)) (weight (linear1 G1)) (weight (linear1 G2))
    \<and> bias (linear1 (params_add G1 G2)) = map2 (+) (bias (linear1 G1)) (bias (linear1 G2))
    \<and> weight (linear2 (params_add G1 G2)) =
        map2 (map2 (+)) (weight (linear2 G1)) (weight (linear2 G2))
    \<and> bias (linear2 (params_add G1 G2)) = map2 (+) (bias (linear2 G1)) (bias (linear2 G2))"
proof -
  have p0: "parameters m0 = parameters m"
    by (simp add: m0 zero_grad_parameters)
  have one: "grad (backward ag l1 m0) = Some G1"
    unfolding m0 G1 using s0 G1 by (intro backward_after_zero_grad) simp
  have s0': "\<forall>g0. grad m = Some g0 \<longrightarrow> same_shape g0 G2"
    using s0 s12 by (auto intro: same_shape_trans)
  have two: "grad (backward ag l2 m0) = Some G2"
    unfolding m0 G2 using s0' G2 by (intro backward_after_zero_grad) simp
  have both: "grad (backward ag l2 (backward ag l1 m0)) = Some (params_add G1 G2)"
    using backward_accumulates [OF one, of ag l2] by (simp add: G2)
  have "\<forall>g0. grad (backward ag l1 m0) = Some g0
          \<longrightarrow> same_shape g0 (ag (graph l2) (recorded_at l2))"
    using one s12 by (simp add: G2)
  then have "grad (backward ag l2 (SGD_zero_grad (backward ag l1 m0))) =
      Some (ag (graph l2) (recorded_at l2))"
    by (rule backward_after_zero_grad)
  then have reset: "grad (backward ag l2 (SGD_zero_grad (backward ag l1 m0))) = Some G2"
    by (simp add: G2)
  show ?thesis
    using one two both reset params_add_tensors [of G1 G2]
    by (simp add: backward_parameters zero_grad_parameters p0)
qed

lemma ag_fill_model_w:
  "ag_fill (graph_const c) (parameters model_w) =
     \<lparr>linear1 = \<lparr>in_features = 2, out_features = 1, weight = [[c, c]], bias = [c]\<rparr>,
      linear2 = \<lparr>in_features = 1, out_features = 1, weight = [[c]], bias = [c]\<rparr>\<rparr>"
  by (simp add: ag_fill_def graph_const_def model_w_def params_map2_def Linear_map2_def
      zeros_like_def Linear_zeros_def)

lemma model_w_fives:
  "backward ag_fill (loss_const 5) model_w =
     \<lparr>parameters =
        \<lparr>linear1 = \<lparr>in_features = 2, out_features = 1, weight = [[1, - 1]], bias = [0]\<rparr>,
         linear2 = \<lparr>in_features = 1, out_features = 1, weight = [[1]], bias = [0]\<rparr>\<rparr>,
      grad = Some
        \<lparr>linear1 = \<lparr>in_features = 2, out_features = 1, weight = [[5, 5]], bias = [5]\<rparr>,
         linear2 = \<lparr>in_features = 1, out_features = 1, weight = [[5]], bias = [5]\<rparr>\<rparr>,
      training = True\<rparr>"
  by (simp add: backward_def Let_def loss_const_def ag_fill_model_w) (simp add: model_w_def)

text \<open>
  The passes of C5 on the concrete classifier, which already holds a gradient of fives:
  gradients of ones and of twos add up to threes; with a reset in between, twos remain.
\<close>

theorem C5_witness:
  "grad (backward ag_fill (loss_const 2) (backward ag_fill (loss_const 1)
      (SGD_zero_grad (backward ag_fill (loss_const 5) model_w)))) =
     Some \<lparr>linear1 = \<lparr>in_features = 2, out_features = 1, weight = [[3, 3]], bias = [3]\<rparr>,
           linear2 = \<lparr>in_features = 1, out_features = 1, weight = [[3]], bias = [3]\<rparr>\<rparr>
   \<and> grad (backward ag_fill (loss_const 2) (SGD_zero_grad (backward ag_fill (loss_const 1)
      (SGD_zero_grad (backward ag_fill (loss_const 5) model_w))))) =
     Some \<lparr>linear1 = \<lparr>in_features = 2, out_features = 1, weight = [[2, 2]], bias = [2]\<rparr>,
           linear2 = \<lparr>in_features = 1, out_features = 1, weight = [[2]], bias = [2]\<rparr>\<rparr>
   \<and> grad (backward ag_fill (loss_const 5) model_w) =
     Some \<lparr>linear1 = \<lparr>in_features = 2, out_features = 1, weight = [[5, 5]], bias = [5]\<rparr>,
           linear2 = \<lparr>in_features = 1, out_features = 1, weight = [[5]], bias = [5]\<rparr>\<rparr>"
proof -
  let ?m = "backward ag_fill (loss_const 5) model_w"
  let ?G1 = "\<lparr>linear1 = \<lparr>in_features = 2, out_features = 1, weight = [[1, 1]], bias = [1]\<rparr>,
           linear2 = \<lparr>in_features = 1, out_features = 1, weight = [[1]], bias = [1::real]\<rparr>\<rparr>"
  let ?G2 = "\<lparr>linear1 = \<lparr>in_features = 2, out_features = 1, weight = [[2, 2]], bias = [2]\<rparr>,
           linear2 = \<lparr>in_features = 1, out_features = 1, weight = [[2]], bias = [2::real]\<rparr>\<rparr>"
  have G1: "?G1 = ag_fill (graph (loss_const 1)) (recorded_at (loss_const 1))"
    by (simp add: loss_const_def ag_fill_model_w)
  have G2: "?G2 = ag_fill (graph (loss_const 2)) (recorded_at (loss_const 2))"
    by (simp add: loss_const_def ag_fill_model_w)
  have s12: "same_shape ?G1 ?G2"
    by (simp add: same_shape_def same_shape_Linear_def)
  have s0: "\<forall>g0. grad ?m = Some g0 \<longrightarrow> same_shape g0 ?G1"
    by (simp add: model_w_fives same_shape_def same_shape_Linear_def)
  from C5_gradients_accumulate_until_reset
    [where ag = ag_fill and ?l1.0 = "loss_const 1" and ?l2.0 = "loss_const 2" and m = ?m,
      OF G1 G2 refl s12 s0]
  show ?thesis
    by (simp add: model_w_fives params_add_def params_map2_def Linear_map2_def)
qed

section \<open>Properties of the forward pass\<close>

lemma Linear_forward_ok:
  assumes "list_all (\<lambda>r. length r = in_features l) x"
  shows "Linear_forward l x = Inr (map (\<lambda>r. map2 (\<lambda>w c. dot r w + c) (weight l) (bias l)) x)"
  using assms by (simp add: Linear_forward_def)

lemma hidden_width:
  assumes "wf_Linear l"
  shows "length (map2 (\<lambda>w c. dot r w + c) (weight l) (bias l)) = out_features l"
  using assms by (simp add: wf_Linear_def)

lemma single_output:
  assumes "wf_Linear l" "out_features l = 1"
  shows "map2 (\<lambda>w c. dot h w + c) (weight l) (bias l) = [dot h (hd (weight l)) + hd (bias l)]"
proof -
  from assms obtain w where w: "weight l = [w]"
    by (cases "weight l") (auto simp: wf_Linear_def)
  from assms obtain c where c: "bias l = [c]"
    by (cases "bias l") (auto simp: wf_Linear_def)
  show ?thesis by (simp add: w c)
qed

lemma predict_logits:
  assumes wf: "wf_params p" and one: "out_features (linear2 p) = 1"
    and x: "list_all (\<lambda>r. length r = in_features (linear1 p)) x"
  shows "predict p x = Inr (Vec (map (logit p) x))"
proof -
  let ?h = "map (\<lambda>r. map2 (\<lambda>w c. dot r w + c) (weight (linear1 p)) (bias (linear1 p))) x"
  have wf1: "wf_Linear (linear1 p)" and wf2: "wf_Linear (linear2 p)"
    and hid: "in_features (linear2 p) = out_features (linear1 p)"
    using wf by (simp_all add: wf_params_def)
  have f1: "Linear_forward (linear1 p) x = Inr ?h"
    using x by (rule Linear_forward_ok)
  have "list_all (\<lambda>r. length r = in_features (linear2 p)) (map (map tanh) ?h)"
    using hidden_width [OF wf1] hid by (simp add: list_all_iff)
  then have f2: "Linear_forward (linear2 p) (map (map tanh) ?h) =
      Inr (map (\<lambda>r. map2 (\<lambda>w c. dot r w + c) (weight (linear2 p)) (bias (linear2 p)))
             (map (map tanh) ?h))"
    by (rule Linear_forward_ok)
  have "forward p x =
      Inr (map (\<lambda>r. map2 (\<lambda>w c. dot r w + c) (weight (linear2 p)) (bias (linear2 p)))
             (map (map tanh) ?h))"
    by (simp only: forward_def f1 f2 sum.case)
  also have "\<dots> = Inr (map (\<lambda>r. [logit p r]) x)"
    by (simp add: single_output [OF wf2 one] logit_def)
  finally have "forward p x = Inr (map (\<lambda>r. [logit p r]) x)" .
  then show ?thesis
    by (simp add: predict_def squeeze_dim1_def one comp_def)
qed

lemma predict_model_w:
  "predict (parameters model_w) (data_inputs batch_w) = Inr (Vec [tanh 1, - tanh 1, 0])"
  by (simp add: predict_def forward_def Linear_forward_def model_w_def batch_w_def dot_def
      squeeze_dim1_def)

section \<open>Properties of the loss\<close>


lemma one_minus_sigmoid: "1 - sigmoid z = exp (- z) / (1 + exp (- z))"
proof -
  have "0 < 1 + exp (- z)" by (simp add: add_pos_pos)
  then show ?thesis by (simp add: sigmoid_def field_simps)
qed

lemma ln_sigmoid: "ln (sigmoid z) = - ln (1 + exp (- z))"
proof -
  have "0 < 1 + exp (- z)" by (simp add: add_pos_pos)
  then show ?thesis by (simp add: sigmoid_def ln_div)
qed

lemma ln_one_minus_sigmoid: "ln (1 - sigmoid z) = - z - ln (1 + exp (- z))"
proof -
  have "0 < 1 + exp (- z)" by (simp add: add_pos_pos)
  then show ?thesis by (simp add: one_minus_sigmoid ln_div)
qed

lemma softplus_shift: "ln (1 + exp (- z)) + z = max z 0 + ln (1 + exp (- \<bar>z\<bar>))" for z :: real
proof (cases "0 \<le> z")
  case True
  then have "max z 0 = z" "\<bar>z\<bar> = z" by simp_all
  then show ?thesis by (simp only: add.commute)
next
  case False
  have p: "0 < 1 + exp (- z)" by (simp add: add_pos_pos)
  have "ln (1 + exp (- z)) + z = ln (1 + exp (- z)) + ln (exp z)"
    by simp
  also have "\<dots> = ln ((1 + exp (- z)) * exp z)"
    using p by (simp add: ln_mult)
  also have "(1 + exp (- z)) * exp z = 1 + exp z"
    by (simp add: algebra_simps exp_minus)
  finally have "ln (1 + exp (- z)) + z = ln (1 + exp z)" .
  moreover have "max z 0 = 0" "\<bar>z\<bar> = - z" using False by simp_all
  ultimately show ?thesis by (simp only: minus_minus add_0_left)
qed

lemma bce_sigmoid_stable: "bce (sigmoid z) y = stable_bce z y"
proof -
  have "bce (sigmoid z) y = (ln (1 + exp (- z)) + z) - z * y"
    by (simp add: bce_def ln_sigmoid ln_one_minus_sigmoid algebra_simps)
  also have "\<dots> = stable_bce z y"
    by (simp add: softplus_shift stable_bce_def)
  finally show ?thesis .
qed

lemma stable_bce_nonneg:
  assumes "0 \<le> y" "y \<le> 1"
  shows "0 \<le> stable_bce z y"
proof -
  have "0 \<le> ln (1 + exp (- \<bar>z\<bar>))"
    by (simp add: ln_ge_zero_iff add_pos_pos)
  moreover have "0 \<le> max z 0 - z * y"
  proof (cases "0 \<le> z")
    case True
    then have "z * y \<le> z * 1" using assms by (intro mult_left_mono) simp_all
    then show ?thesis using True by simp
  next
    case False
    then have "z * y \<le> 0" using assms by (simp add: mult_le_0_iff)
    then show ?thesis using False by simp
  qed
  ultimately show ?thesis by (simp add: stable_bce_def)
qed


lemma map2_bce_sigmoid:
  "map2 (\<lambda>z y. bce (sigmoid z) y) zs ys = map2 stable_bce zs ys"
  by (simp add: bce_sigmoid_stable)

lemma BCEWithLogitsLoss_Vec:
  assumes "length zs = length ys" and "zs \<noteq> []"
  shows "BCEWithLogitsLoss (Vec zs) ys =
           Inr (Finite (sum_list (map2 stable_bce zs ys) / real (length zs)))"
proof -
  have "map2 (\<lambda>z y. bce (sigmoid z) y) zs ys \<noteq> []"
    using assms by (cases zs; cases ys) simp_all
  moreover have "length (map2 (\<lambda>z y. bce (sigmoid z) y) zs ys) = length zs"
    using assms by simp
  ultimately show ?thesis
    using assms by (simp add: BCEWithLogitsLoss_def mean_def map2_bce_sigmoid)
qed

text \<open>
  C4. For every non-empty batch of logits \<open>zs\<close> and labels \<open>ys\<close> of the same length,
  the loss module returns the mean over the batch of the numerically stable per-sample
  quantity \<open>max(z,0) - z*y + log(1+exp(-|z|))\<close>, which is the binary cross entropy of
  the sigmoid of the logit. The training loop computes its loss by the same module, so
  the loss it differentiates is that mean.
\<close>

theorem C4_loss_is_mean_of_stable_bce:
  assumes "length zs = length ys" and "zs \<noteq> []"
  shows "BCEWithLogitsLoss (Vec zs) ys =
           Inr (Finite (sum_list (map2 stable_bce zs ys) / real (length zs)))
    \<and> (\<forall>b p. predict p (data_inputs b) = Inr (Vec zs) \<and> map real_of_int (data_labels b) = ys
          \<longrightarrow> loss_graph BCEWithLogitsLoss b p =
                Inr (Finite (sum_list (map2 stable_bce zs ys) / real (length zs))))"
proof -
  have "BCEWithLogitsLoss (Vec zs) ys =
      Inr (Finite (sum_list (map2 stable_bce zs ys) / real (length zs)))"
    using assms by (rule BCEWithLogitsLoss_Vec)
  then show ?thesis
    by (simp add: loss_graph_def)
qed

text \<open>
  The loss of C4 on two logits 0 with the labels 1 and 0, and on the logits of the
  concrete classifier for the batch of three samples.
\<close>

theorem C4_witness:
  "BCEWithLogitsLoss (Vec [0, 0]) [1, 0] = Inr (Finite (ln 2))
   \<and> stable_bce 0 1 = ln 2 \<and> stable_bce 0 0 = ln 2
   \<and> loss_graph BCEWithLogitsLoss batch_w (parameters model_w) =
       Inr (Finite ((stable_bce (tanh 1) 1 + stable_bce (- tanh 1) 1 + stable_bce 0 0) / 3))"
proof -
  have "length [0, 0 :: real] = length [1, 0 :: real]" "[0, 0 :: real] \<noteq> []"
    by simp_all
  from C4_loss_is_mean_of_stable_bce [OF this]
  have a: "BCEWithLogitsLoss (Vec [0, 0]) [1, 0] = Inr (Finite (ln 2))"
    by (simp add: stable_bce_def)
  have "length [tanh 1, - tanh 1, 0 :: real] = length [1, 1, 0 :: real]"
    "[tanh 1, - tanh 1, 0 :: real] \<noteq> []"
    by simp_all
  from C4_loss_is_mean_of_stable_bce [OF this]
  have q: "\<forall>b p. predict p (data_inputs b) = Inr (Vec [tanh 1, - tanh 1, 0])
          \<and> map real_of_int (data_labels b) = [1, 1, 0]
          \<longrightarrow> loss_graph BCEWithLogitsLoss b p =
                Inr (Finite (sum_list (map2 stable_bce [tanh 1, - tanh 1, 0] [1, 1, 0])
                       / real (length [tanh 1, - tanh 1, 0 :: real])))"
    by (rule conjunct2)
  have lab: "map real_of_int (data_labels batch_w) = [1, 1, 0]"
    by (simp add: batch_w_def)
  have "loss_graph BCEWithLogitsLoss batch_w (parameters model_w) =
      Inr (Finite (sum_list (map2 stable_bce [tanh 1, - tanh 1, 0] [1, 1, 0])
             / real (length [tanh 1, - tanh 1, 0 :: real])))"
    by (rule q [rule_format]) (intro conjI predict_model_w lab)
  then have b: "loss_graph BCEWithLogitsLoss batch_w (parameters model_w) =
       Inr (Finite ((stable_bce (tanh 1) 1 + stable_bce (- tanh 1) 1 + stable_bce 0 0) / 3))"
    by simp
  have c: "stable_bce 0 1 = ln 2 \<and> stable_bce 0 0 = ln 2"
    by (simp add: stable_bce_def)
  show ?thesis
    using a b c by (intro conjI) simp_all
qed

section \<open>Properties of the training loop\<close>


lemma train_step_sequence:
  assumes "loss_graph lm b (parameters m) = Inr v"
  shows "train_step ag opt lm m b =
     Inr (step opt (backward ag
            \<lparr>item = v, graph = loss_graph lm b, recorded_at = parameters m\<rparr>
            (zero_grad opt m)))"
  using assms
  by (auto simp: train_step_def loss_graph_def Let_def split: sum.splits)

lemma train_step_fails:
  assumes "loss_graph lm b (parameters m) = Inl e"
  shows "train_step ag opt lm m b = Inl e"
  using assms
  by (auto simp: train_step_def loss_graph_def Let_def split: sum.splits)

lemma train_batches_append:
  "train_batches ag opt lm m (bs @ cs) =
     (case train_batches ag opt lm m bs of
        Inl e \<Rightarrow> Inl e
      | Inr m' \<Rightarrow> train_batches ag opt lm m' cs)"
  by (induction bs arbitrary: m) (auto split: sum.splits)

lemma train_epochs_concat:
  "train_epochs ag opt lm data_loader es m =
     train_batches ag opt lm m (concat (map data_loader es))"
  by (induction es arbitrary: m) (auto simp: train_batches_append split: sum.splits)

lemma SGD_step_after_backward:
  assumes "grad m = Some G"
  shows "SGD_step lr m = m\<lparr>parameters := params_map2 (\<lambda>p d. p - lr * d) (parameters m) G\<rparr>"
  using assms by (simp add: SGD_step_def)

lemma params_map2_tensors:
  "weight (linear1 (params_map2 f a b)) = map2 (map2 f) (weight (linear1 a)) (weight (linear1 b))
   \<and> bias (linear1 (params_map2 f a b)) = map2 f (bias (linear1 a)) (bias (linear1 b))
   \<and> weight (linear2 (params_map2 f a b)) = map2 (map2 f) (weight (linear2 a)) (weight (linear2 b))
   \<and> bias (linear2 (params_map2 f a b)) = map2 f (bias (linear2 a)) (bias (linear2 b))"
  by (simp add: params_map2_def Linear_map2_def)

text \<open>
  C6. When the forward pass and the loss of a batch succeed, a training step is the
  optimizer step applied after the backward pass of that loss applied after the zeroing
  of the gradients, the loss being the one recorded at the parameters before the step.
  With the SGD optimizer the step therefore leaves, for every parameter tensor, exactly
  the gradient \<open>G\<close> of this batch (nothing of an earlier gradient), and the parameters
  \<open>p - lr * G\<close> entry by entry; the gradient is the one that reverse-mode
  differentiation gives for the recorded loss, which as a function of the parameters is
  the loss module applied to the logits, each logit being the second affine layer of
  the tanh of the first affine layer. The batches of an epoch are processed one after the other
  in the order yielded, each step starting from the module the step before left, and the
  epochs \<open>0..num_epochs-1\<close> one after the other.
\<close>

theorem C6_training_step_sequence:
  assumes ok: "loss_graph lm b (parameters m) = Inr v"
    and loss: "loss = \<lparr>item = v, graph = loss_graph lm b, recorded_at = parameters m\<rparr>"
    and G: "G = ag (loss_graph lm b) (parameters m)"
    and shape: "\<forall>g0. grad m = Some g0 \<longrightarrow> same_shape g0 G"
  shows "train_step ag opt lm m b = Inr (step opt (backward ag loss (zero_grad opt m)))
    \<and> (\<exists>m'. train_step ag (SGD lr) lm m b = Inr m'
          \<and> grad m' = Some G
          \<and> parameters m' = params_map2 (\<lambda>p d. p - lr * d) (parameters m) G
          \<and> weight (linear1 (parameters m')) =
              map2 (map2 (\<lambda>p d. p - lr * d)) (weight (linear1 (parameters m))) (weight (linear1 G))
          \<and> bias (linear1 (parameters m')) =
              map2 (\<lambda>p d. p - lr * d) (bias (linear1 (parameters m))) (bias (linear1 G))
          \<and> weight (linear2 (parameters m')) =
              map2 (map2 (\<lambda>p d. p - lr * d)) (weight (linear2 (parameters m))) (weight (linear2 G))
          \<and> bias (linear2 (parameters m')) =
              map2 (\<lambda>p d. p - lr * d) (bias (linear2 (parameters m))) (bias (linear2 G))
          \<and> training m' = training m)
    \<and> train_batches ag opt lm m (b # bs) =
        (case train_step ag opt lm m b of
           Inl e \<Rightarrow> Inl e
         | Inr m' \<Rightarrow> train_batches ag opt lm m' bs)
    \<and> train_batches ag opt lm m (bs @ cs) =
        (case train_batches ag opt lm m bs of
           Inl e \<Rightarrow> Inl e
         | Inr m' \<Rightarrow> train_batches ag opt lm m' cs)
    \<and> train_model ag m opt data_loader lm (int n) =
        train_batches ag opt lm (m\<lparr>training := True\<rparr>) (concat (map data_loader [0..<n]))
    \<and> (\<forall>p. wf_params p \<and> out_features (linear2 p) = 1 \<and> batch_ok p b \<longrightarrow>
          graph loss p =
            lm (Vec (map (logit p) (data_inputs b))) (map real_of_int (data_labels b)))"
proof -
  let ?m2 = "backward ag loss (SGD_zero_grad m)"
  have seq: "train_step ag opt lm m b = Inr (step opt (backward ag loss (zero_grad opt m)))"
    for opt
    unfolding loss using ok by (rule train_step_sequence)
  have G': "G = ag (graph loss) (recorded_at loss)"
    by (simp add: G loss)
  have g2: "grad ?m2 = Some G"
    unfolding G' using shape G' by (intro backward_after_zero_grad) simp
  have p2: "parameters ?m2 = parameters m"
    by (simp add: backward_parameters zero_grad_parameters)
  have t2: "training ?m2 = training m"
    by (simp add: backward_def SGD_zero_grad_def Let_def)
  let ?m3 = "SGD_step lr ?m2"
  have m3: "?m3 = ?m2\<lparr>parameters := params_map2 (\<lambda>p d. p - lr * d) (parameters m) G\<rparr>"
    using SGD_step_after_backward [OF g2, of lr] by (simp add: p2)
  have "train_step ag (SGD lr) lm m b = Inr ?m3"
    using seq [of "SGD lr"] by (simp add: SGD_def)
  moreover have "grad ?m3 = Some G"
    using m3 g2 by simp
  moreover have p3: "parameters ?m3 = params_map2 (\<lambda>p d. p - lr * d) (parameters m) G"
    using m3 by simp
  moreover have "training ?m3 = training m"
    using m3 t2 by simp
  ultimately have sgd: "\<exists>m'. train_step ag (SGD lr) lm m b = Inr m'
          \<and> grad m' = Some G
          \<and> parameters m' = params_map2 (\<lambda>p d. p - lr * d) (parameters m) G
          \<and> weight (linear1 (parameters m')) =
              map2 (map2 (\<lambda>p d. p - lr * d)) (weight (linear1 (parameters m))) (weight (linear1 G))
          \<and> bias (linear1 (parameters m')) =
              map2 (\<lambda>p d. p - lr * d) (bias (linear1 (parameters m))) (bias (linear1 G))
          \<and> weight (linear2 (parameters m')) =
              map2 (map2 (\<lambda>p d. p - lr * d)) (weight (linear2 (parameters m))) (weight (linear2 G))
          \<and> bias (linear2 (parameters m')) =
              map2 (\<lambda>p d. p - lr * d) (bias (linear2 (parameters m))) (bias (linear2 G))
          \<and> training m' = training m"
    using params_map2_tensors [of "\<lambda>p d. p - lr * d" "parameters m" G]
    by (intro exI [of _ ?m3]) (simp only: simp_thms)
  have model: "train_model ag m opt data_loader lm (int n) =
        train_batches ag opt lm (m\<lparr>training := True\<rparr>) (concat (map data_loader [0..<n]))"
    by (simp add: train_model_def train_epochs_concat)
  have through: "graph loss p =
      lm (Vec (map (logit p) (data_inputs b))) (map real_of_int (data_labels b))"
    if "wf_params p \<and> out_features (linear2 p) = 1 \<and> batch_ok p b" for p
  proof -
    have "predict p (data_inputs b) = Inr (Vec (map (logit p) (data_inputs b)))"
      using that by (intro predict_logits) (simp_all add: batch_ok_def)
    then show ?thesis
      by (simp add: loss loss_graph_def)
  qed
  then have through': "\<forall>p. wf_params p \<and> out_features (linear2 p) = 1 \<and> batch_ok p b \<longrightarrow>
          graph loss p =
            lm (Vec (map (logit p) (data_inputs b))) (map real_of_int (data_labels b))"
    by blast
  have rest: "train_step ag opt lm m b = Inr (step opt (backward ag loss (zero_grad opt m)))
    \<and> train_batches ag opt lm m (b # bs) =
        (case train_step ag opt lm m b of
           Inl e \<Rightarrow> Inl e
         | Inr m' \<Rightarrow> train_batches ag opt lm m' bs)
    \<and> train_batches ag opt lm m (bs @ cs) =
        (case train_batches ag opt lm m bs of
           Inl e \<Rightarrow> Inl e
         | Inr m' \<Rightarrow> train_batches ag opt lm m' cs)
    \<and> train_model ag m opt data_loader lm (int n) =
        train_batches ag opt lm (m\<lparr>training := True\<rparr>) (concat (map data_loader [0..<n]))"
    using seq [of opt] model train_batches_append [of ag opt lm m bs cs]
    by (simp only: train_batches.simps simp_thms)
  show ?thesis
    using rest sgd through' by blast
qed

lemma loss_model_w:
  "\<exists>L. loss_graph BCEWithLogitsLoss batch_w (parameters model_w) = Inr (Finite L)"
proof -
  have "map real_of_int (data_labels batch_w) = [1, 1, 0]"
    by (simp add: batch_w_def)
  moreover have "BCEWithLogitsLoss (Vec [tanh 1, - tanh 1, 0]) [1, 1, 0] =
      Inr (Finite (sum_list (map2 stable_bce [tanh 1, - tanh 1, 0] [1, 1, 0])
             / real (length [tanh 1, - tanh 1, 0 :: real])))"
    by (rule BCEWithLogitsLoss_Vec) simp_all
  ultimately show ?thesis
    by (simp only: loss_graph_def predict_model_w sum.case) blast
qed

text \<open>
  One training step of C6 on the concrete classifier and batch, with learning rate 0.1
  and a gradient whose entries all are the loss \<open>L\<close> of the batch.
\<close>

theorem C6_witness:
  "\<exists>L m'. loss_graph BCEWithLogitsLoss batch_w (parameters model_w) = Inr (Finite L)
     \<and> train_step ag_fill (SGD (1/10)) BCEWithLogitsLoss model_w batch_w = Inr m'
     \<and> train_model ag_fill model_w (SGD (1/10)) loader_w BCEWithLogitsLoss 1 = Inr m'
     \<and> grad m' =
         Some \<lparr>linear1 = \<lparr>in_features = 2, out_features = 1, weight = [[L, L]], bias = [L]\<rparr>,
               linear2 = \<lparr>in_features = 1, out_features = 1, weight = [[L]], bias = [L]\<rparr>\<rparr>
     \<and> parameters m' =
         \<lparr>linear1 = \<lparr>in_features = 2, out_features = 1,
                      weight = [[1 - L / 10, - 1 - L / 10]], bias = [- (L / 10)]\<rparr>,
          linear2 = \<lparr>in_features = 1, out_features = 1,
                      weight = [[1 - L / 10]], bias = [- (L / 10)]\<rparr>\<rparr>
     \<and> loss_graph BCEWithLogitsLoss batch_w (parameters model_w) =
         BCEWithLogitsLoss (Vec [tanh 1, - tanh 1, 0]) [1, 1, 0]"
proof -
  obtain L where L: "loss_graph BCEWithLogitsLoss batch_w (parameters model_w) = Inr (Finite L)"
    using loss_model_w by blast
  let ?G = "\<lparr>linear1 = \<lparr>in_features = 2, out_features = 1, weight = [[L, L]], bias = [L]\<rparr>,
            linear2 = \<lparr>in_features = 1, out_features = 1, weight = [[L]], bias = [L]\<rparr>\<rparr>"
  have "ag_fill (loss_graph BCEWithLogitsLoss batch_w) (parameters model_w) = ?G"
    by (simp add: ag_fill_def L) (simp add: model_w_def params_map2_def Linear_map2_def
        zeros_like_def Linear_zeros_def)
  then have G: "?G = ag_fill (loss_graph BCEWithLogitsLoss batch_w) (parameters model_w)"
    by (rule sym)
  have shape: "\<forall>g0. grad model_w = Some g0 \<longrightarrow> same_shape g0 ?G"
    by (simp add: model_w_def)
  have tr: "model_w\<lparr>training := True\<rparr> = model_w"
    by (simp add: model_w_def)
  have one: "concat (map loader_w [0..<1]) = [batch_w]"
    by (simp add: loader_w_def)
  from C6_training_step_sequence
    [where ag = ag_fill and lm = BCEWithLogitsLoss and b = batch_w and m = model_w
       and opt = "SGD (1/10)" and lr = "1/10" and bs = "[]" and cs = "[]" and n = 1
       and data_loader = loader_w, OF L refl G shape]
  obtain m' where
    step: "train_step ag_fill (SGD (1/10)) BCEWithLogitsLoss model_w batch_w = Inr m'"
    and g: "grad m' = Some ?G"
    and p: "parameters m' = params_map2 (\<lambda>p d. p - 1/10 * d) (parameters model_w) ?G"
    and tm: "train_model ag_fill model_w (SGD (1/10)) loader_w BCEWithLogitsLoss (int 1) =
        train_batches ag_fill (SGD (1/10)) BCEWithLogitsLoss (model_w\<lparr>training := True\<rparr>)
          (concat (map loader_w [0..<1]))"
    and th: "\<forall>p. wf_params p \<and> out_features (linear2 p) = 1 \<and> batch_ok p batch_w \<longrightarrow>
          graph \<lparr>item = Finite L, graph = loss_graph BCEWithLogitsLoss batch_w,
                  recorded_at = parameters model_w\<rparr> p =
            BCEWithLogitsLoss (Vec (map (logit p) (data_inputs batch_w)))
              (map real_of_int (data_labels batch_w))"
    by blast
  have "wf_params (parameters model_w) \<and> out_features (linear2 (parameters model_w)) = 1
      \<and> batch_ok (parameters model_w) batch_w"
    by (simp add: wf_params_def wf_Linear_def batch_ok_def model_w_def batch_w_def)
  with th have "loss_graph BCEWithLogitsLoss batch_w (parameters model_w) =
      BCEWithLogitsLoss (Vec (map (logit (parameters model_w)) (data_inputs batch_w)))
        (map real_of_int (data_labels batch_w))"
    by simp
  moreover have "map (logit (parameters model_w)) (data_inputs batch_w) = [tanh 1, - tanh 1, 0]"
    by (simp add: batch_w_def logit_def model_w_def dot_def)
  moreover have "map real_of_int (data_labels batch_w) = [1, 1, 0]"
    by (simp add: batch_w_def)
  ultimately have lg: "loss_graph BCEWithLogitsLoss batch_w (parameters model_w) =
         BCEWithLogitsLoss (Vec [tanh 1, - tanh 1, 0]) [1, 1, 0]"
    by (simp only:)
  have tm': "train_model ag_fill model_w (SGD (1/10)) loader_w BCEWithLogitsLoss 1 = Inr m'"
    using tm step by (simp add: tr loader_w_def)
  have p': "parameters m' =
         \<lparr>linear1 = \<lparr>in_features = 2, out_features = 1,
                      weight = [[1 - L / 10, - 1 - L / 10]], bias = [- (L / 10)]\<rparr>,
          linear2 = \<lparr>in_features = 1, out_features = 1,
                      weight = [[1 - L / 10]], bias = [- (L / 10)]\<rparr>\<rparr>"
    using p by (simp add: model_w_def params_map2_def Linear_map2_def)
  show ?thesis
    using L step tm' g p' lg by blast
qed

section \<open>Properties of the evaluation loop\<close>













text \<open>
  C8. Evaluation is read-only with respect to the model: for every model and loader,
  whether the evaluation ends with an accuracy or with an exception, both weight
  matrices and both bias vectors are what they were before the call, and so are the
  stored gradients (no gradient is computed). The one thing the call changes on the
  module is the training-mode flag, which \<open>model.eval()\<close> clears.
\<close>

theorem C8_evaluation_leaves_parameters_unchanged:
  "parameters (fst (eval_model model data_loader)) = parameters model
   \<and> weight (linear1 (parameters (fst (eval_model model data_loader)))) =
       weight (linear1 (parameters model))
   \<and> bias (linear1 (parameters (fst (eval_model model data_loader)))) =
       bias (linear1 (parameters model))
   \<and> weight (linear2 (parameters (fst (eval_model model data_loader)))) =
       weight (linear2 (parameters model))
   \<and> bias (linear2 (parameters (fst (eval_model model data_loader)))) =
       bias (linear2 (parameters model))
   \<and> grad (fst (eval_model model data_loader)) = grad model
   \<and> fst (eval_model model data_loader) = model\<lparr>training := False\<rparr>"
  by (simp add: eval_model_def Let_def)

text \<open>
  C10. When the loader yields no batch, the loop leaves \<open>true_preds\<close> and
  \<open>num_preds\<close> at the Python float \<open>0.\<close>; the final division is not guarded against
  a zero \<open>num_preds\<close> and raises ZeroDivisionError, so no accuracy is produced.
\<close>

theorem C10_no_accuracy_for_a_loader_without_batches:
  "snd (eval_model model []) = Inl ZeroDivisionError
   \<and> eval_loop (parameters model) [] (PyFloat 0, 0) = Inr (PyFloat 0, 0)
   \<and> true_divide (PyFloat 0) 0 = Inl ZeroDivisionError"
  by (simp add: eval_model_def Let_def true_divide_def)

text \<open>
  A loader over an empty dataset is such a loader: its traversal yields no batch.
\<close>

lemma empty_dataset_yields_no_batch:
  assumes "XORDataset_init cap bits noise 0 sd = Inr ds"
    and "DataLoader_init ds bs False dlast = Inr L"
  shows "iter_DataLoader perm L = Inr []"
proof -
  have "len_ds ds = 0"
    using init_size [OF assms(1)] by simp
  moreover note DataLoader_init_fields [OF assms(2)]
  ultimately have "batch_indices perm L = []"
    by (simp add: batch_indices_def index_order_def Let_def chunks_stop drop_incomplete_def)
  then show ?thesis
    by (simp add: iter_DataLoader_def)
qed

section \<open>Properties of saving and loading\<close>


lemma state_dict_lookup:
  "map_of (state_dict_of model) ''linear1.weight'' =
      Some (Mat (in_features (linear1 (parameters model))) (weight (linear1 (parameters model))))
   \<and> map_of (state_dict_of model) ''linear1.bias'' = Some (Vec (bias (linear1 (parameters model))))
   \<and> map_of (state_dict_of model) ''linear2.weight'' =
      Some (Mat (in_features (linear2 (parameters model))) (weight (linear2 (parameters model))))
   \<and> map_of (state_dict_of model) ''linear2.bias'' = Some (Vec (bias (linear2 (parameters model))))"
  by (simp add: state_dict_of_def Let_def)

lemma state_dict_names:
  "list_all (\<lambda>(name, t). name \<in> set parameter_names) (state_dict_of model)"
  by (simp add: state_dict_of_def Let_def parameter_names_def)

lemma fits_own_tensors:
  assumes "wf_Linear l" "in_features l' = in_features l" "out_features l' = out_features l"
  shows "weight_fits l' (Mat (in_features l) (weight l)) \<and> bias_fits l' (Vec (bias l))"
  using assms by (simp add: weight_fits_def bias_fits_def wf_Linear_def)

lemma Linear_overwrite:
  assumes "in_features l' = in_features l" "out_features l' = out_features l"
  shows "l'\<lparr>weight := weight l, bias := bias l\<rparr> = (l :: Linear)"
  using assms by (cases l; cases l') simp


lemma init_features:
  "in_features (linear1 (parameters (SimpleClassifier_init w1 c1 w2 c2 a h k))) = a
   \<and> out_features (linear1 (parameters (SimpleClassifier_init w1 c1 w2 c2 a h k))) = h
   \<and> in_features (linear2 (parameters (SimpleClassifier_init w1 c1 w2 c2 a h k))) = h
   \<and> out_features (linear2 (parameters (SimpleClassifier_init w1 c1 w2 c2 a h k))) = k"
  by (simp add: SimpleClassifier_init_def Linear_init_def)

lemma load_own_state_dict:
  assumes wf: "wf_params (parameters model)"
    and f1: "in_features (linear1 (parameters new_model)) = in_features (linear1 (parameters model))"
      "out_features (linear1 (parameters new_model)) = out_features (linear1 (parameters model))"
    and f2: "in_features (linear2 (parameters new_model)) = in_features (linear2 (parameters model))"
      "out_features (linear2 (parameters new_model)) = out_features (linear2 (parameters model))"
  shows "load_state_dict new_model (state_dict_of model) =
     Inr (new_model\<lparr>parameters := parameters model\<rparr>)"
proof -
  let ?p = "parameters model"
  let ?q = "parameters new_model"
  have wf1: "wf_Linear (linear1 ?p)" and wf2: "wf_Linear (linear2 ?p)"
    using wf by (simp_all add: wf_params_def)
  note fit1 = fits_own_tensors [OF wf1 f1]
  note fit2 = fits_own_tensors [OF wf2 f2]
  have o1: "(linear1 ?q)\<lparr>weight := weight (linear1 ?p), bias := bias (linear1 ?p)\<rparr> = linear1 ?p"
    using f1 by (rule Linear_overwrite)
  have o2: "(linear2 ?q)\<lparr>weight := weight (linear2 ?p), bias := bias (linear2 ?p)\<rparr> = linear2 ?p"
    using f2 by (rule Linear_overwrite)
  have "\<lparr>linear1 = linear1 ?p, linear2 = linear2 ?p\<rparr> = ?p"
    by simp
  with o1 o2 show ?thesis
    using fit1 fit2 state_dict_names [of model]
    by (simp add: load_state_dict_def Let_def state_dict_lookup)
qed

text \<open>
  C9. Parameter persistence round-trips. The state dict of a model, saved under a file
  name and loaded again, is the same named mapping; loading it into a freshly constructed
  model of identical architecture (the same numbers of inputs, hidden units and outputs,
  whatever its initial values) succeeds and gives that model the parameters of the
  original, so that its state dict is the saved one and its forward pass returns, for
  every input batch, what the forward pass of the original returns.
\<close>

theorem C9_save_load_round_trip:
  assumes wf: "wf_params (parameters model)"
    and arch: "in_features (linear1 (parameters model)) = num_inputs"
      "out_features (linear1 (parameters model)) = num_hidden"
      "out_features (linear2 (parameters model)) = num_outputs"
    and new: "new_model = SimpleClassifier_init w1 c1 w2 c2 num_inputs num_hidden num_outputs"
  shows "torch_load name (torch_save (state_dict_of model) name fs) = Inr (state_dict_of model)
    \<and> (\<exists>loaded. load_state_dict new_model (state_dict_of model) = Inr loaded
          \<and> parameters loaded = parameters model
          \<and> state_dict_of loaded = state_dict_of model
          \<and> (\<forall>x. forward (parameters loaded) x = forward (parameters model) x))"
proof -
  have hid: "in_features (linear2 (parameters model)) = num_hidden"
    using wf arch by (simp add: wf_params_def)
  note nf = init_features [of w1 c1 w2 c2 num_inputs num_hidden num_outputs]
  have "load_state_dict new_model (state_dict_of model) =
      Inr (new_model\<lparr>parameters := parameters model\<rparr>)"
    using wf by (rule load_own_state_dict) (simp_all add: new nf arch hid)
  moreover have "state_dict_of (new_model\<lparr>parameters := parameters model\<rparr>) = state_dict_of model"
    by (simp add: state_dict_of_def)
  moreover have "torch_load name (torch_save (state_dict_of model) name fs) =
      Inr (state_dict_of model)"
    by (simp add: torch_load_def torch_save_def)
  ultimately show ?thesis
    by simp
qed

text \<open>
  The round trip of C9 for the concrete classifier, through the file of the notebook and
  into a fresh classifier whose initial values are all zero.
\<close>

theorem C9_witness:
  "torch_load ''our_model.tar'' (torch_save (state_dict_of model_w) ''our_model.tar'' Map.empty) =
     Inr [(''linear1.weight'', Mat 2 [[1, - 1]]), (''linear1.bias'', Vec [0]),
          (''linear2.weight'', Mat 1 [[1]]), (''linear2.bias'', Vec [0])]
   \<and> parameters (SimpleClassifier_init w_zero c_zero w_zero c_zero 2 1 1) =
       \<lparr>linear1 = \<lparr>in_features = 2, out_features = 1, weight = [[0, 0]], bias = [0]\<rparr>,
        linear2 = \<lparr>in_features = 1, out_features = 1, weight = [[0]], bias = [0]\<rparr>\<rparr>
   \<and> load_state_dict (SimpleClassifier_init w_zero c_zero w_zero c_zero 2 1 1)
        (state_dict_of model_w) = Inr model_w
   \<and> forward (parameters model_w) [[1, 0]] = Inr [[tanh 1]]"
proof -
  have wf: "wf_params (parameters model_w)"
    by (simp add: wf_params_def wf_Linear_def model_w_def)
  have arch: "in_features (linear1 (parameters model_w)) = 2"
    "out_features (linear1 (parameters model_w)) = 1"
    "out_features (linear2 (parameters model_w)) = 1"
    by (simp_all add: model_w_def)
  have sd: "state_dict_of model_w =
      [(''linear1.weight'', Mat 2 [[1, - 1]]), (''linear1.bias'', Vec [0]),
       (''linear2.weight'', Mat 1 [[1]]), (''linear2.bias'', Vec [0])]"
    by (simp add: state_dict_of_def model_w_def)
  have upt2: "[0..<2] = [0, Suc 0]"
    by (simp add: upt_rec numeral_2_eq_2)
  have new: "SimpleClassifier_init w_zero c_zero w_zero c_zero 2 1 1 =
      \<lparr>parameters =
        \<lparr>linear1 = \<lparr>in_features = 2, out_features = 1, weight = [[0, 0]], bias = [0]\<rparr>,
         linear2 = \<lparr>in_features = 1, out_features = 1, weight = [[0]], bias = [0]\<rparr>\<rparr>,
       grad = None, training = True\<rparr>"
    by (simp add: SimpleClassifier_init_def Linear_init_def w_zero_def c_zero_def upt2)
  have fw: "forward (parameters model_w) [[1, 0]] = Inr [[tanh 1]]"
    by (simp add: forward_def Linear_forward_def model_w_def dot_def)
  from C9_save_load_round_trip [OF wf arch refl, of "''our_model.tar''" Map.empty w_zero c_zero w_zero c_zero]
  obtain loaded where
    saved: "torch_load ''our_model.tar'' (torch_save (state_dict_of model_w) ''our_model.tar'' Map.empty) =
      Inr (state_dict_of model_w)"
    and l: "load_state_dict (SimpleClassifier_init w_zero c_zero w_zero c_zero 2 1 1)
        (state_dict_of model_w) = Inr loaded"
    and p: "parameters loaded = parameters model_w"
    by blast
  have "load_state_dict (SimpleClassifier_init w_zero c_zero w_zero c_zero 2 1 1)
        (state_dict_of model_w) =
      Inr ((SimpleClassifier_init w_zero c_zero w_zero c_zero 2 1 1)\<lparr>parameters := parameters model_w\<rparr>)"
    using wf by (rule load_own_state_dict) (simp_all add: init_features model_w_def)
  moreover have "(SimpleClassifier_init w_zero c_zero w_zero c_zero 2 1 1)
      \<lparr>parameters := parameters model_w\<rparr> = model_w"
    by (simp only: new) (simp add: model_w_def)
  ultimately have l': "load_state_dict (SimpleClassifier_init w_zero c_zero w_zero c_zero 2 1 1)
        (state_dict_of model_w) = Inr model_w"
    by (simp only:)
  have params_new: "parameters (SimpleClassifier_init w_zero c_zero w_zero c_zero 2 1 1) =
       \<lparr>linear1 = \<lparr>in_features = 2, out_features = 1, weight = [[0, 0]], bias = [0]\<rparr>,
        linear2 = \<lparr>in_features = 1, out_features = 1, weight = [[0]], bias = [0]\<rparr>\<rparr>"
    by (simp only: new) simp
  have saved': "torch_load ''our_model.tar''
      (torch_save (state_dict_of model_w) ''our_model.tar'' Map.empty) =
     Inr [(''linear1.weight'', Mat 2 [[1, - 1]]), (''linear1.bias'', Vec [0]),
          (''linear2.weight'', Mat 1 [[1]]), (''linear2.bias'', Vec [0])]"
    using saved by (simp only: sd)
  show ?thesis
    using saved' params_new l' fw by (intro conjI)
qed


end
